theory Spec2Isabelle
  imports Main "HOL-Library.Char_ord"
begin

section \<open>The ESPN upstream client: circuit breaker and retry\<close>

text \<open>
  \<^verbatim>\<open>espn-client.js\<close> keeps one module-level object \<^verbatim>\<open>circuitBreaker\<close> with the fields
  below. \<^verbatim>\<open>lastFailureTime\<close> starts as \<^verbatim>\<open>null\<close>; the threshold and the cooldown are
  fields that no code assigns (5 and 30000 ms for ESPN, 3 and 60000 ms for the odds client).
\<close>

record circuitBreaker =
  isOpen :: bool
  failureCount :: nat
  lastFailureTime :: "int option"
  threshold :: nat
  resetTimeout :: int

definition espn_circuitBreaker :: circuitBreaker where
  "espn_circuitBreaker =
     \<lparr>isOpen = False, failureCount = 0, lastFailureTime = None, threshold = 5, resetTimeout = 30000\<rparr>"

text \<open>
  What the client can observe of its surroundings: the breaker, the clock read by
  \<^verbatim>\<open>Date.now()\<close> (milliseconds) and the number of HTTP requests handed to the network so
  far.
\<close>

record world =
  breaker :: circuitBreaker
  now :: int
  requests :: nat

text \<open>
  An error rejected by axios: \<^verbatim>\<open>error.code\<close> (absent or a string), the status of
  \<^verbatim>\<open>error.response\<close> when the server answered (absent for connection-level failures),
  and \<^verbatim>\<open>error.message\<close>.
\<close>

record axios_error =
  code :: "string option"
  response :: "int option"
  message :: string

datatype 'a outcome = Response 'a | Rejected axios_error

text \<open>
  The network is a script: the outcome of the n-th request issued, and the milliseconds it
  took.
\<close>

type_synonym 'a network = "nat \<Rightarrow> 'a outcome \<times> nat"

datatype fetch_error = CircuitOpenError | UpstreamError axios_error

text \<open>\<^verbatim>\<open>Date.now() - circuitBreaker.lastFailureTime\<close>: JavaScript reads \<^verbatim>\<open>null\<close> as 0 here.\<close>

definition timeSinceLastFailure :: "world \<Rightarrow> int" where
  "timeSinceLastFailure w =
     now w - (case lastFailureTime (breaker w) of None \<Rightarrow> 0 | Some t \<Rightarrow> t)"

definition isCircuitOpen :: "world \<Rightarrow> bool \<times> world" where
  "isCircuitOpen w =
     (if isOpen (breaker w) then
        (if timeSinceLastFailure w > resetTimeout (breaker w)
         then (False, w\<lparr>breaker := (breaker w)\<lparr>isOpen := False, failureCount := 0\<rparr>\<rparr>)
         else (True, w))
      else (False, w))"

text \<open>
  \<^verbatim>\<open>_handleError\<close> is the response interceptor: it runs for every rejected attempt and
  touches the breaker only in the branch \<^verbatim>\<open>if (error.response)\<close>. It always rejects with
  the same error, so the model returns the new world only.
\<close>

definition handleError :: "axios_error \<Rightarrow> world \<Rightarrow> world" where
  "handleError e w =
     (case response e of
        Some st \<Rightarrow>
          (let cb1 = (breaker w)\<lparr>failureCount := Suc (failureCount (breaker w)),
                                lastFailureTime := Some (now w)\<rparr>;
               cb2 = (if failureCount cb1 \<ge> threshold cb1 then cb1\<lparr>isOpen := True\<rparr> else cb1)
           in w\<lparr>breaker := cb2\<rparr>)
      | None \<Rightarrow> w)"

text \<open>\<^verbatim>\<open>this.client.request(config)\<close>: one request on the network, then the interceptors.\<close>

definition client_request :: "'a network \<Rightarrow> world \<Rightarrow> (axios_error + 'a) \<times> world" where
  "client_request net w =
     (let (out, took) = net (requests w);
          w1 = w\<lparr>now := now w + int took, requests := Suc (requests w)\<rparr>
      in case out of
           Response d \<Rightarrow> (Inr d, w1)
         | Rejected e \<Rightarrow> (Inl e, handleError e w1))"

definition isRetryable :: "axios_error \<Rightarrow> bool" where
  "isRetryable e =
     (if code e = Some ''ECONNABORTED'' \<or> code e = Some ''ETIMEDOUT'' then True
      else if (case response e of Some st \<Rightarrow> st \<ge> 500 | None \<Rightarrow> False) then True
      else if (case response e of Some st \<Rightarrow> st = 429 | None \<Rightarrow> False) then True
      else False)"

text \<open>\<^verbatim>\<open>_delay(ms)\<close> only lets time pass.\<close>

definition delay :: "nat \<Rightarrow> world \<Rightarrow> world" where
  "delay ms w = w\<lparr>now := now w + int ms\<rparr>"

fun fetchWithRetry :: "'a network \<Rightarrow> nat \<Rightarrow> nat \<Rightarrow> world \<Rightarrow> (fetch_error + 'a) \<times> world" where
  "fetchWithRetry net retryDelay retries w =
     (case isCircuitOpen w of
        (True, w1) \<Rightarrow> (Inl CircuitOpenError, w1)
      | (False, w1) \<Rightarrow>
          (case client_request net w1 of
             (Inr d, w2) \<Rightarrow> (Inr d, w2\<lparr>breaker := (breaker w2)\<lparr>failureCount := 0\<rparr>\<rparr>)
           | (Inl e, w2) \<Rightarrow>
               (if retries > 0 \<and> isRetryable e
                then fetchWithRetry net retryDelay (retries - 1) (delay retryDelay w2)
                else (Inl (UpstreamError e), w2))))"

text \<open>
  \<^verbatim>\<open>healthCheck()\<close> has three \<^verbatim>\<open>return\<close> statements, one constructor each:
  \<^verbatim>\<open>{status: 'unhealthy', message: 'Circuit breaker is open', lastFailureTime}\<close>,
  \<^verbatim>\<open>{status: 'healthy', latency, circuitBreakerOpen: false}\<close> and
  \<^verbatim>\<open>{status: 'unhealthy', message, circuitBreakerOpen}\<close>.
\<close>

datatype health =
    UnhealthyBreaker "int option"
  | Healthy int bool
  | Unhealthy string bool

definition error_message :: "fetch_error \<Rightarrow> string" where
  "error_message err =
     (case err of
        CircuitOpenError \<Rightarrow> ''ESPN API circuit breaker is open''
      | UpstreamError e \<Rightarrow> message e)"

definition healthCheck :: "'a network \<Rightarrow> nat \<Rightarrow> nat \<Rightarrow> world \<Rightarrow> health \<times> world" where
  "healthCheck net retryDelay maxRetries w =
     (case isCircuitOpen w of
        (True, w1) \<Rightarrow> (UnhealthyBreaker (lastFailureTime (breaker w1)), w1)
      | (False, w1) \<Rightarrow>
          (let startTime = now w1 in
           case fetchWithRetry net retryDelay maxRetries w1 of
             (Inr d, w2) \<Rightarrow> (Healthy (now w2 - startTime) False, w2)
           | (Inl err, w2) \<Rightarrow> (Unhealthy (error_message err) (isOpen (breaker w2)), w2)))"


subsection \<open>Concrete worlds and networks\<close>

definition w_fresh :: world where
  "w_fresh = \<lparr>breaker = espn_circuitBreaker, now = 0, requests = 0\<rparr>"

definition w_open :: world where
  "w_open =
     \<lparr>breaker = espn_circuitBreaker\<lparr>isOpen := True, failureCount := 5, lastFailureTime := Some 1000\<rparr>,
      now = 31000, requests = 7\<rparr>"

definition w_cooled :: world where
  "w_cooled = w_open\<lparr>now := 31001\<rparr>"

definition w_four :: world where
  "w_four =
     \<lparr>breaker = espn_circuitBreaker\<lparr>failureCount := 4, lastFailureTime := Some 1000\<rparr>,
      now = 2000, requests = 9\<rparr>"

definition http_error :: "int \<Rightarrow> axios_error" where
  "http_error st = \<lparr>code = None, response = Some st, message = ''Request failed''\<rparr>"

definition timeout_error :: axios_error where
  "timeout_error =
     \<lparr>code = Some ''ECONNABORTED'', response = None, message = ''timeout of 10000ms exceeded''\<rparr>"

definition always500 :: "unit network" where
  "always500 n = (Rejected (http_error 500), 20)"

definition always408 :: "unit network" where
  "always408 n = (Rejected (http_error 408), 20)"

definition always404 :: "unit network" where
  "always404 n = (Rejected (http_error 404), 20)"

definition alwaysTimeout :: "unit network" where
  "alwaysTimeout n = (Rejected timeout_error, 10000)"

definition alwaysOk :: "unit network" where
  "alwaysOk n = (Response (), 20)"

section \<open>JavaScript values\<close>

text \<open>
  The cache and the repositories handle untyped JavaScript values. Numbers are the
  integers (no fractions, no \<^verbatim>\<open>NaN\<close>); strings are UTF-8 byte strings.
\<close>

datatype jsval =
    JUndefined
  | JNull
  | JBool bool
  | JNum int
  | JStr string
  | JArr "jsval list"
  | JObj "(string \<times> jsval) list"

text \<open>Truthiness, as \<^verbatim>\<open>if (x)\<close>, \<^verbatim>\<open>!x\<close> and \<^verbatim>\<open>x || y\<close> read it.\<close>

fun truthy :: "jsval \<Rightarrow> bool" where
  "truthy JUndefined = False"
| "truthy JNull = False"
| "truthy (JBool b) = b"
| "truthy (JNum n) = (n \<noteq> 0)"
| "truthy (JStr s) = (s \<noteq> [])"
| "truthy (JArr xs) = True"
| "truthy (JObj kvs) = True"

definition js_or :: "jsval \<Rightarrow> jsval \<Rightarrow> jsval" where
  "js_or a b = (if truthy a then a else b)"

text \<open>
  Reading a property. On an object it is the property's value or \<^verbatim>\<open>undefined\<close>; an
  array, a string, a number or a boolean has none of the property names this program
  reads (\<^verbatim>\<open>id\<close>, \<^verbatim>\<open>espnId\<close>, ...), so the read gives \<^verbatim>\<open>undefined\<close>. On
  \<^verbatim>\<open>null\<close> and \<^verbatim>\<open>undefined\<close> the optional read \<^verbatim>\<open>x?.p\<close> gives
  \<^verbatim>\<open>undefined\<close> and the plain read \<^verbatim>\<open>x.p\<close> throws a TypeError.
\<close>

fun opt_prop :: "jsval \<Rightarrow> string \<Rightarrow> jsval" where
  "opt_prop (JObj kvs) p = (case map_of kvs p of Some v \<Rightarrow> v | None \<Rightarrow> JUndefined)"
| "opt_prop v p = JUndefined"

datatype js_error = TypeError | SyntaxError

fun get_prop :: "jsval \<Rightarrow> string \<Rightarrow> js_error + jsval" where
  "get_prop JUndefined p = Inl TypeError"
| "get_prop JNull p = Inl TypeError"
| "get_prop v p = Inr (opt_prop v p)"

text \<open>\<^verbatim>\<open>xs[0]\<close> on an array.\<close>

fun opt_first :: "jsval \<Rightarrow> jsval" where
  "opt_first (JArr (x # xs)) = x"
| "opt_first v = JUndefined"

subsection \<open>Numbers and strings\<close>

definition digit_char :: "nat \<Rightarrow> char" where
  "digit_char d = ''0123456789'' ! d"

fun show_nat :: "nat \<Rightarrow> string" where
  "show_nat n = (if n < 10 then [digit_char n] else show_nat (n div 10) @ [digit_char (n mod 10)])"

definition show_int :: "int \<Rightarrow> string" where
  "show_int i = (if i < 0 then CHR ''-'' # show_nat (nat (- i)) else show_nat (nat i))"

fun intercalate :: "string \<Rightarrow> string list \<Rightarrow> string" where
  "intercalate sep [] = []"
| "intercalate sep [x] = x"
| "intercalate sep (x # y # ys) = x @ sep @ intercalate sep (y # ys)"

text \<open>
  \<^verbatim>\<open>String(x)\<close>. Inside an array \<^verbatim>\<open>null\<close> and \<^verbatim>\<open>undefined\<close> print as the empty
  string.
\<close>

fun js_String :: "jsval \<Rightarrow> string" where
  "js_String JUndefined = ''undefined''"
| "js_String JNull = ''null''"
| "js_String (JBool b) = (if b then ''true'' else ''false'')"
| "js_String (JNum n) = show_int n"
| "js_String (JStr s) = s"
| "js_String (JArr xs) =
     intercalate '',''
       (map (\<lambda>x. if x = JUndefined \<or> x = JNull then [] else js_String x) xs)"
| "js_String (JObj kvs) = ''[object Object]''"

text \<open>\<^verbatim>\<open>s.toUpperCase()\<close> on the ASCII letters; every other byte stays as it is.\<close>

definition toUpperCase :: "string \<Rightarrow> string" where
  "toUpperCase s =
     map (\<lambda>c. if CHR ''a'' \<le> c \<and> c \<le> CHR ''z'' then char_of (of_char c - (32::nat)) else c) s"

section \<open>The Redis cache client\<close>

subsection \<open>The backing store\<close>

text \<open>
  The Redis server behind ioredis, as far as \<^verbatim>\<open>cache.js\<close> uses it: string values with
  an optional expiry instant, a clock in seconds, and a flag for a server that rejects every
  command (unreachable, or failing). Each command returns its reply or the rejection.
\<close>

record redis =
  entries :: "(string \<times> string \<times> int option) list"
  clock :: int
  failing :: bool

datatype redis_error = RedisError

definition live :: "redis \<Rightarrow> string \<times> string \<times> int option \<Rightarrow> bool" where
  "live r e = (case snd (snd e) of None \<Rightarrow> True | Some t \<Rightarrow> clock r < t)"

definition redis_get :: "redis \<Rightarrow> string \<Rightarrow> redis_error + string option" where
  "redis_get r k =
     (if failing r then Inl RedisError
      else Inr (case map_of (filter (live r) (entries r)) k of
                  Some (v, t) \<Rightarrow> Some v
                | None \<Rightarrow> None))"

definition redis_put :: "redis \<Rightarrow> string \<Rightarrow> string \<Rightarrow> int option \<Rightarrow> redis" where
  "redis_put r k v t = r\<lparr>entries := (k, v, t) # filter (\<lambda>e. fst e \<noteq> k) (entries r)\<rparr>"

definition redis_set :: "redis \<Rightarrow> string \<Rightarrow> string \<Rightarrow> redis_error + redis" where
  "redis_set r k v = (if failing r then Inl RedisError else Inr (redis_put r k v None))"

text \<open>\<^verbatim>\<open>SETEX\<close> rejects an expiry that is not positive.\<close>

definition redis_setex :: "redis \<Rightarrow> string \<Rightarrow> int \<Rightarrow> string \<Rightarrow> redis_error + redis" where
  "redis_setex r k ttl v =
     (if failing r \<or> ttl \<le> 0 then Inl RedisError
      else Inr (redis_put r k v (Some (clock r + ttl))))"

definition redis_del :: "redis \<Rightarrow> string list \<Rightarrow> redis_error + redis" where
  "redis_del r ks =
     (if failing r then Inl RedisError
      else Inr (r\<lparr>entries := filter (\<lambda>e. fst e \<notin> set ks) (entries r)\<rparr>))"

text \<open>
  \<^verbatim>\<open>KEYS pattern\<close>, for patterns built from literal characters, \<^verbatim>\<open>*\<close> and \<^verbatim>\<open>?\<close>
  (the program's own patterns are a sanitised prefix followed by \<^verbatim>\<open>:*\<close>).
\<close>

fun glob :: "string \<Rightarrow> string \<Rightarrow> bool" where
  "glob [] s = (s = [])"
| "glob (c # p) [] = (c = CHR ''*'' \<and> glob p [])"
| "glob (c # p) (x # s) =
     (if c = CHR ''*'' then glob p (x # s) \<or> glob (c # p) s
      else (c = CHR ''?'' \<or> c = x) \<and> glob p s)"

definition redis_keys :: "redis \<Rightarrow> string \<Rightarrow> redis_error + string list" where
  "redis_keys r pat =
     (if failing r then Inl RedisError
      else Inr (filter (glob pat) (map fst (filter (live r) (entries r)))))"

subsection \<open>The JSON builtins\<close>

text \<open>
  \<^verbatim>\<open>JSON.stringify\<close> and \<^verbatim>\<open>JSON.parse\<close> belong to the JavaScript runtime, not to
  this program: the client takes them as a parameter. \<open>parse\<close> gives \<open>None\<close> where the
  builtin throws a SyntaxError.
\<close>

record json =
  stringify :: "jsval \<Rightarrow> string"
  parse :: "string \<Rightarrow> jsval option"

subsection \<open>\<^verbatim>\<open>CacheClient\<close>\<close>

record cacheClient =
  client :: "redis option"
  isConnected :: bool
  isHealthy :: bool

text \<open>
  Every method starts with the guard \<^verbatim>\<open>if (!this.isConnected || !this.client)\<close> and
  wraps the rest in \<^verbatim>\<open>try\<close>/\<^verbatim>\<open>catch\<close>; the \<open>Inl\<close> branches below are the
  \<^verbatim>\<open>catch\<close> blocks. Each method is a total function: every path ends in a
  \<^verbatim>\<open>return\<close>.
\<close>

definition CacheClient_get :: "json \<Rightarrow> cacheClient \<Rightarrow> string \<Rightarrow> jsval" where
  "CacheClient_get J c key =
     (case client c of
        None \<Rightarrow> JNull
      | Some r \<Rightarrow>
          if \<not> isConnected c then JNull
          else (case redis_get r key of
                  Inl err \<Rightarrow> JNull
                | Inr None \<Rightarrow> JNull
                | Inr (Some v) \<Rightarrow>
                    if v = [] then JNull
                    else (case parse J v of Some x \<Rightarrow> x | None \<Rightarrow> JStr v)))"

definition serialize :: "json \<Rightarrow> jsval \<Rightarrow> string" where
  "serialize J v = (case v of JStr s \<Rightarrow> s | _ \<Rightarrow> stringify J v)"

text \<open>
  \<^verbatim>\<open>set(key, value, ttl = null)\<close>: \<open>ttl\<close> is \<open>None\<close> for \<^verbatim>\<open>null\<close>; \<^verbatim>\<open>if (ttl)\<close>
  takes a number other than 0.
\<close>

definition CacheClient_set ::
  "json \<Rightarrow> cacheClient \<Rightarrow> string \<Rightarrow> jsval \<Rightarrow> int option \<Rightarrow> bool \<times> cacheClient" where
  "CacheClient_set J c key v ttl =
     (case client c of
        None \<Rightarrow> (False, c)
      | Some r \<Rightarrow>
          if \<not> isConnected c then (False, c)
          else (let serialized = serialize J v in
                case (case ttl of
                        Some t \<Rightarrow> if t \<noteq> 0 then redis_setex r key t serialized
                                  else redis_set r key serialized
                      | None \<Rightarrow> redis_set r key serialized) of
                  Inl err \<Rightarrow> (False, c)
                | Inr r' \<Rightarrow> (True, c\<lparr>client := Some r'\<rparr>)))"

definition CacheClient_del :: "cacheClient \<Rightarrow> string \<Rightarrow> bool \<times> cacheClient" where
  "CacheClient_del c key =
     (case client c of
        None \<Rightarrow> (False, c)
      | Some r \<Rightarrow>
          if \<not> isConnected c then (False, c)
          else (case redis_del r [key] of
                  Inl err \<Rightarrow> (False, c)
                | Inr r' \<Rightarrow> (True, c\<lparr>client := Some r'\<rparr>)))"

definition CacheClient_delPattern :: "cacheClient \<Rightarrow> string \<Rightarrow> nat \<times> cacheClient" where
  "CacheClient_delPattern c pat =
     (case client c of
        None \<Rightarrow> (0, c)
      | Some r \<Rightarrow>
          if \<not> isConnected c then (0, c)
          else (case redis_keys r pat of
                  Inl err \<Rightarrow> (0, c)
                | Inr keys \<Rightarrow>
                    if length keys = 0 then (0, c)
                    else (case redis_del r keys of
                            Inl err \<Rightarrow> (0, c)
                          | Inr r' \<Rightarrow> (length keys, c\<lparr>client := Some r'\<rparr>))))"

subsection \<open>Keys and time-to-live table\<close>

text \<open>
  \<^verbatim>\<open>String(part).replace(/[^a-zA-Z0-9_-]/g, '_')\<close>, byte by byte (a character
  beyond ASCII gives one underscore for each of its bytes).
\<close>

definition sanitize :: "string \<Rightarrow> string" where
  "sanitize s =
     map (\<lambda>c. if (CHR ''a'' \<le> c \<and> c \<le> CHR ''z'') \<or> (CHR ''A'' \<le> c \<and> c \<le> CHR ''Z'') \<or>
                  (CHR ''0'' \<le> c \<and> c \<le> CHR ''9'') \<or> c = CHR ''_'' \<or> c = CHR ''-''
               then c else CHR ''_'') s"

definition generateCacheKey :: "string \<Rightarrow> jsval list \<Rightarrow> string" where
  "generateCacheKey namespace parts =
     namespace @ '':'' @ intercalate '':'' (map (\<lambda>part. sanitize (js_String part)) parts)"

text \<open>
  \<^verbatim>\<open>CACHE_TTL\<close> is read once from the environment:
  \<^verbatim>\<open>parseInt(process.env.CACHE_TTL_SCORES) || 30\<close> and so on. \<open>env\<close> gives the parsed
  variable, \<open>None\<close> when it is unset or not a number.
\<close>

definition env_or :: "(string \<Rightarrow> int option) \<Rightarrow> string \<Rightarrow> int \<Rightarrow> int" where
  "env_or env var dflt = (case env var of Some n \<Rightarrow> if n \<noteq> 0 then n else dflt | None \<Rightarrow> dflt)"

definition CACHE_TTL :: "(string \<Rightarrow> int option) \<Rightarrow> string \<Rightarrow> int option" where
  "CACHE_TTL env dataType =
     (if dataType = ''scores'' then Some (env_or env ''CACHE_TTL_SCORES'' 30)
      else if dataType = ''odds'' then Some (env_or env ''CACHE_TTL_ODDS'' 300)
      else if dataType = ''standings'' then Some (env_or env ''CACHE_TTL_STANDINGS'' 21600)
      else if dataType = ''schedules'' then Some (env_or env ''CACHE_TTL_SCHEDULES'' 86400)
      else if dataType = ''players'' then Some (env_or env ''CACHE_TTL_PLAYERS'' 604800)
      else if dataType = ''news'' then Some (env_or env ''CACHE_TTL_NEWS'' 3600)
      else None)"

subsection \<open>\<^verbatim>\<open>CacheHelper.getOrSet\<close>\<close>

text \<open>
  The fetch function is any computation on some upstream state \<open>'u\<close> that returns a value
  or throws \<open>'e\<close>; the state it leaves tells how often it ran.
\<close>

record fetched =
  data :: jsval
  cached :: bool

definition ttl_for :: "(string \<Rightarrow> int option) \<Rightarrow> string \<Rightarrow> int" where
  "ttl_for env dataType =
     (case CACHE_TTL env dataType of Some t \<Rightarrow> if t \<noteq> 0 then t else 300 | None \<Rightarrow> 300)"

definition getOrSet ::
  "json \<Rightarrow> (string \<Rightarrow> int option) \<Rightarrow> string \<Rightarrow> ('u \<Rightarrow> ('e + jsval) \<times> 'u) \<Rightarrow> string \<Rightarrow>
   cacheClient \<times> 'u \<Rightarrow> ('e + fetched) \<times> cacheClient \<times> 'u" where
  "getOrSet J env key fetchFn dataType s =
     (let (c, u) = s;
          hit = CacheClient_get J c key
      in if hit \<noteq> JNull then (Inr \<lparr>data = hit, cached = True\<rparr>, c, u)
         else (case fetchFn u of
                 (Inl err, u') \<Rightarrow> (Inl err, c, u')
               | (Inr d, u') \<Rightarrow>
                   (let ttl = ttl_for env dataType;
                        (ok, c') = CacheClient_set J c key d (Some ttl)
                    in (Inr \<lparr>data = d, cached = False\<rparr>, c', u'))))"

subsection \<open>A concrete instance of the JSON builtins\<close>

text \<open>
  For evaluating the client on concrete values: \<^verbatim>\<open>JSON.stringify\<close> on values built from
  \<^verbatim>\<open>null\<close>, booleans, integers, arrays, objects and strings that need no escaping
  (\<^verbatim>\<open>undefined\<close> prints as \<^verbatim>\<open>null\<close> inside an array and is left out of an object;
  on its own it has no JSON text, and the instance is not used there), and
  \<^verbatim>\<open>JSON.parse\<close> on the texts that are a literal name or a decimal integer. Any other
  text is outside this instance (it answers \<open>None\<close>); the evaluations below use it on
  literal names, integers and texts that are not JSON at all.
\<close>

fun json_text :: "jsval \<Rightarrow> string" where
  "json_text JUndefined = ''null''"
| "json_text JNull = ''null''"
| "json_text (JBool b) = (if b then ''true'' else ''false'')"
| "json_text (JNum n) = show_int n"
| "json_text (JStr s) = CHR 0x22 # s @ [CHR 0x22]"
| "json_text (JArr xs) = ''['' @ intercalate '','' (map json_text xs) @ '']''"
| "json_text (JObj kvs) =
     ''{'' @ intercalate '',''
              (map (\<lambda>(k, v). CHR 0x22 # k @ [CHR 0x22] @ '':'' @ json_text v)
                 (filter (\<lambda>(k, v). v \<noteq> JUndefined) kvs)) @ ''}''"

definition is_digit :: "char \<Rightarrow> bool" where
  "is_digit c = (CHR ''0'' \<le> c \<and> c \<le> CHR ''9'')"

definition digit_val :: "char \<Rightarrow> nat" where
  "digit_val c = of_char c - of_char (CHR ''0'')"

definition digits_val :: "string \<Rightarrow> nat" where
  "digits_val ds = foldl (\<lambda>acc c. 10 * acc + digit_val c) 0 ds"

definition json_integer :: "string \<Rightarrow> int option" where
  "json_integer s =
     (let (neg, ds) = (case s of c # rest \<Rightarrow> if c = CHR ''-'' then (True, rest) else (False, s)
                                 | [] \<Rightarrow> (False, s))
      in if ds = [] \<or> \<not> list_all is_digit ds \<or> (length ds > 1 \<and> hd ds = CHR ''0'') then None
         else Some (if neg then - int (digits_val ds) else int (digits_val ds)))"

definition json_literal :: "string \<Rightarrow> jsval option" where
  "json_literal s =
     (if s = ''null'' then Some JNull
      else if s = ''true'' then Some (JBool True)
      else if s = ''false'' then Some (JBool False)
      else map_option JNum (json_integer s))"

definition JSON :: json where
  "JSON = \<lparr>stringify = json_text, parse = json_literal\<rparr>"

subsection \<open>Concrete caches\<close>

definition redis_empty :: redis where
  "redis_empty = \<lparr>entries = [], clock = 1000, failing = False\<rparr>"

definition cache_up :: cacheClient where
  "cache_up = \<lparr>client = Some redis_empty, isConnected = True, isHealthy = True\<rparr>"

definition cache_never_connected :: cacheClient where
  "cache_never_connected = \<lparr>client = None, isConnected = False, isHealthy = False\<rparr>"

definition cache_failing :: cacheClient where
  "cache_failing =
     \<lparr>client = Some \<lparr>entries = [(''scores:nba'', ''7'', None)], clock = 1000, failing = True\<rparr>,
      isConnected = True, isHealthy = False\<rparr>"

definition no_env :: "string \<Rightarrow> int option" where
  "no_env var = None"

text \<open>A fetch function that counts its invocations and returns the number 7.\<close>

definition fetch_seven :: "nat \<Rightarrow> (unit + jsval) \<times> nat" where
  "fetch_seven n = (Inr (JNum 7), Suc n)"

definition cache_seven :: cacheClient where
  "cache_seven = cache_up\<lparr>client := Some (redis_put redis_empty ''scores:nba'' ''7'' (Some 1030))\<rparr>"

text \<open>
  A cache in which the key is present and holds the text \<^verbatim>\<open>null\<close>, as
  \<^verbatim>\<open>set(key, null, ttl)\<close> leaves it, and a fetch function that returns the string
  \<^verbatim>\<open>'123'\<close>.
\<close>

definition cache_null :: cacheClient where
  "cache_null = cache_up\<lparr>client := Some (redis_put redis_empty ''scores:nba'' ''null'' (Some 1030))\<rparr>"

definition fetch_text :: "nat \<Rightarrow> (unit + jsval) \<times> nat" where
  "fetch_text n = (Inr (JStr ''123''), Suc n)"

text \<open>Letting \<open>dt\<close> seconds pass on the store's clock.\<close>

definition elapse :: "int \<Rightarrow> cacheClient \<Rightarrow> cacheClient" where
  "elapse dt c = c\<lparr>client := map_option (\<lambda>r. r\<lparr>clock := clock r + dt\<rparr>) (client c)\<rparr>"

section \<open>Normalising ESPN scoreboard events\<close>

subsection \<open>\<^verbatim>\<open>parseInt\<close>\<close>

text \<open>
  \<^verbatim>\<open>parseInt(x)\<close> with no radix: the argument is turned into a string, leading white
  space is skipped, a sign is read, a prefix \<^verbatim>\<open>0x\<close> selects base 16, and the longest
  run of digits is the result; with no digit the result is \<^verbatim>\<open>NaN\<close>, here \<open>None\<close>.

  White space is all that JavaScript skips: TAB, LF, VT, FF, CR and the space, and, as
  UTF-8, U+00A0, U+1680, U+2000 to U+200A, U+2028, U+2029, U+202F, U+205F, U+3000 and
  U+FEFF. A byte \<open>0xA0\<close> outside a UTF-8 sequence is read as U+00A0, its Latin-1
  meaning.
\<close>

definition is_space :: "char \<Rightarrow> bool" where
  "is_space c =
     (c \<in> {CHR 0x09, CHR 0x0A, CHR 0x0B, CHR 0x0C, CHR 0x0D, CHR '' '', CHR 0xA0})"

definition is_space3 :: "char \<Rightarrow> char \<Rightarrow> char \<Rightarrow> bool" where
  "is_space3 a b c =
     ((a = CHR 0xE1 \<and> b = CHR 0x9A \<and> c = CHR 0x80) \<or>
      (a = CHR 0xE2 \<and> b = CHR 0x80 \<and>
         ((CHR 0x80 \<le> c \<and> c \<le> CHR 0x8A) \<or> c = CHR 0xA8 \<or> c = CHR 0xA9 \<or> c = CHR 0xAF)) \<or>
      (a = CHR 0xE2 \<and> b = CHR 0x81 \<and> c = CHR 0x9F) \<or>
      (a = CHR 0xE3 \<and> b = CHR 0x80 \<and> c = CHR 0x80) \<or>
      (a = CHR 0xEF \<and> b = CHR 0xBB \<and> c = CHR 0xBF))"

fun skip_blanks :: "string \<Rightarrow> string" where
  "skip_blanks (a # b # c # s) =
     (if is_space a then skip_blanks (b # c # s)
      else if a = CHR 0xC2 \<and> b = CHR 0xA0 then skip_blanks (c # s)
      else if is_space3 a b c then skip_blanks s
      else a # b # c # s)"
| "skip_blanks [a, b] =
     (if is_space a then skip_blanks [b]
      else if a = CHR 0xC2 \<and> b = CHR 0xA0 then []
      else [a, b])"
| "skip_blanks [a] = (if is_space a then [] else [a])"
| "skip_blanks [] = []"

definition is_hex :: "char \<Rightarrow> bool" where
  "is_hex c = (is_digit c \<or> (CHR ''a'' \<le> c \<and> c \<le> CHR ''f'') \<or> (CHR ''A'' \<le> c \<and> c \<le> CHR ''F''))"

definition hex_val :: "char \<Rightarrow> nat" where
  "hex_val c =
     (if is_digit c then digit_val c
      else if CHR ''a'' \<le> c \<and> c \<le> CHR ''f'' then of_char c - of_char (CHR ''a'') + 10
      else of_char c - of_char (CHR ''A'') + 10)"

definition parseInt :: "jsval \<Rightarrow> int option" where
  "parseInt x =
     (let s = skip_blanks (js_String x);
          (neg, s1) = (case s of
                         c # rest \<Rightarrow> if c = CHR ''-'' then (True, rest)
                                    else if c = CHR ''+'' then (False, rest) else (False, s)
                       | [] \<Rightarrow> (False, s));
          hex = (take 2 s1 = ''0x'' \<or> take 2 s1 = ''0X'');
          ds = (if hex then takeWhile is_hex (drop 2 s1) else takeWhile is_digit s1);
          n = (if hex then foldl (\<lambda>acc c. 16 * acc + hex_val c) 0 ds else digits_val ds)
      in if ds = [] then None else Some (if neg then - int n else int n))"

text \<open>
  The text that \<^verbatim>\<open>parseInt\<close> looks for digits in: the argument as a string, without
  the leading white space and without one leading sign.
\<close>

definition unsigned_text :: "jsval \<Rightarrow> string" where
  "unsigned_text x =
     (case skip_blanks (js_String x) of
        c # rest \<Rightarrow> if c = CHR ''-'' \<or> c = CHR ''+'' then rest else c # rest
      | [] \<Rightarrow> [])"

text \<open>
  No integer to read: after a prefix \<^verbatim>\<open>0x\<close> no hexadecimal digit follows, or else the
  text does not start with a decimal digit.
\<close>

definition no_leading_integer :: "string \<Rightarrow> bool" where
  "no_leading_integer t =
     (if take 2 t = ''0x'' \<or> take 2 t = ''0X''
      then (case drop 2 t of [] \<Rightarrow> True | c # rest \<Rightarrow> \<not> is_hex c)
      else (case t of [] \<Rightarrow> True | c # rest \<Rightarrow> \<not> is_digit c))"

text \<open>\<^verbatim>\<open>n || d\<close> for a number \<open>n\<close>: \<^verbatim>\<open>NaN\<close> and 0 are falsy.\<close>

definition number_or :: "int option \<Rightarrow> jsval \<Rightarrow> jsval" where
  "number_or n d = (case n of Some k \<Rightarrow> if k \<noteq> 0 then JNum k else d | None \<Rightarrow> d)"

subsection \<open>\<^verbatim>\<open>_normalizeGameData\<close>\<close>

definition LEAGUE_CONFIG_name :: "string \<Rightarrow> string option" where
  "LEAGUE_CONFIG_name league =
     (if league = ''nfl'' then Some ''NFL''
      else if league = ''nba'' then Some ''NBA''
      else if league = ''mlb'' then Some ''MLB''
      else if league = ''nhl'' then Some ''NHL''
      else if league = ''ncaaf'' then Some ''NCAAF''
      else if league = ''ncaab'' then Some ''NCAAB''
      else None)"

text \<open>
  \<^verbatim>\<open>LEAGUE_CONFIG\<close> is an object literal, so a key that it does not have itself is
  looked up in \<^verbatim>\<open>Object.prototype\<close>: there \<^verbatim>\<open>constructor\<close> is the function named
  \<^verbatim>\<open>Object\<close>, each of the other methods is a function named as its key, and
  \<^verbatim>\<open>__proto__\<close> is an object without a \<^verbatim>\<open>name\<close>.
\<close>

definition Object_prototype_name :: "string \<Rightarrow> string option" where
  "Object_prototype_name key =
     (if key = ''constructor'' then Some ''Object''
      else if key \<in> set [''toString'', ''toLocaleString'', ''valueOf'', ''hasOwnProperty'',
                          ''isPrototypeOf'', ''propertyIsEnumerable'', ''__defineGetter__'',
                          ''__defineSetter__'', ''__lookupGetter__'', ''__lookupSetter__'']
      then Some key
      else None)"

text \<open>
  \<^verbatim>\<open>LEAGUE_CONFIG[league]?.name || league.toUpperCase()\<close>, for a league that is a
  string.
\<close>

definition league_label :: "string \<Rightarrow> string" where
  "league_label league =
     (case LEAGUE_CONFIG_name league of
        Some n \<Rightarrow> n
      | None \<Rightarrow> (case Object_prototype_name league of
                   Some n \<Rightarrow> n
                 | None \<Rightarrow> toUpperCase league))"

text \<open>
  \<^verbatim>\<open>x?.[0]\<close>: nothing on \<^verbatim>\<open>null\<close> and \<^verbatim>\<open>undefined\<close>, the first element of an
  array, the property \<^verbatim>\<open>0\<close> of an object, the first character of a string (one UTF-8
  sequence), and \<^verbatim>\<open>undefined\<close> on a number or a boolean.
\<close>

definition first_char :: "string \<Rightarrow> string" where
  "first_char s =
     (case s of
        [] \<Rightarrow> []
      | c # rest \<Rightarrow>
          take (if c < CHR 0x80 then 1 else if c < CHR 0xE0 then 2 else if c < CHR 0xF0 then 3 else 4) s)"

fun opt_index0 :: "jsval \<Rightarrow> jsval" where
  "opt_index0 (JArr xs) = (case xs of [] \<Rightarrow> JUndefined | x # rest \<Rightarrow> x)"
| "opt_index0 (JObj kvs) = opt_prop (JObj kvs) ''0''"
| "opt_index0 (JStr s) = (if s = [] then JUndefined else JStr (first_char s))"
| "opt_index0 v = JUndefined"

text \<open>
  \<^verbatim>\<open>competitors?.find(c => c.homeAway === side)\<close>. The callback reads
  \<^verbatim>\<open>c.homeAway\<close> with a plain read, which throws on an element that is \<^verbatim>\<open>null\<close> or
  \<^verbatim>\<open>undefined\<close>; the search stops at the first match. On \<^verbatim>\<open>null\<close> and
  \<^verbatim>\<open>undefined\<close> the optional call gives \<^verbatim>\<open>undefined\<close>; any other value that is not
  an array has no \<^verbatim>\<open>find\<close>, and calling it throws.
\<close>

fun find_side :: "string \<Rightarrow> jsval list \<Rightarrow> js_error + jsval" where
  "find_side side [] = Inr JUndefined"
| "find_side side (c # cs) =
     (case get_prop c ''homeAway'' of
        Inl err \<Rightarrow> Inl err
      | Inr v \<Rightarrow> if v = JStr side then Inr c else find_side side cs)"

fun opt_find_side :: "string \<Rightarrow> jsval \<Rightarrow> js_error + jsval" where
  "opt_find_side side JUndefined = Inr JUndefined"
| "opt_find_side side JNull = Inr JUndefined"
| "opt_find_side side (JArr cs) = find_side side cs"
| "opt_find_side side v = Inl TypeError"

text \<open>
  \<^verbatim>\<open>event.competitions?.[0]?.competitors?.find(...)\<close>: the read of
  \<^verbatim>\<open>event.competitions\<close> is a plain one and throws on an event that is \<^verbatim>\<open>null\<close> or
  \<^verbatim>\<open>undefined\<close>.
\<close>

definition competitor :: "string \<Rightarrow> jsval \<Rightarrow> js_error + jsval" where
  "competitor side event =
     (case get_prop event ''competitions'' of
        Inl err \<Rightarrow> Inl err
      | Inr competitions \<Rightarrow>
          opt_find_side side (opt_prop (opt_index0 competitions) ''competitors''))"

text \<open>
  \<^verbatim>\<open>_normalizeGameData(event, league)\<close>. The two searches come first; once they have
  returned, the event is an object or a primitive and the later plain reads
  \<^verbatim>\<open>event.id\<close>, \<^verbatim>\<open>event.status\<close> and \<^verbatim>\<open>event.date\<close> cannot throw.
\<close>

definition normalizeGameData :: "jsval \<Rightarrow> string \<Rightarrow> js_error + jsval" where
  "normalizeGameData event league =
     (case competitor ''home'' event of
        Inl err \<Rightarrow> Inl err
      | Inr home \<Rightarrow>
     (case competitor ''away'' event of
        Inl err \<Rightarrow> Inl err
      | Inr away \<Rightarrow>
        Inr (JObj
          [(''espnId'', JStr (js_String (opt_prop event ''id''))),
           (''sport'', JStr league),
           (''league'', JStr (league_label league)),
           (''homeTeam'', JObj
              [(''id'', opt_prop (opt_prop home ''team'') ''id''),
               (''espnId'', JStr (js_String (opt_prop (opt_prop home ''team'') ''id''))),
               (''name'', opt_prop (opt_prop home ''team'') ''displayName''),
               (''abbreviation'', opt_prop (opt_prop home ''team'') ''abbreviation''),
               (''logo'', opt_prop (opt_prop home ''team'') ''logo''),
               (''score'', number_or (parseInt (opt_prop home ''score'')) JNull),
               (''records'', js_or (opt_prop (opt_index0 (opt_prop home ''records'')) ''summary'') JNull)]),
           (''awayTeam'', JObj
              [(''id'', opt_prop (opt_prop away ''team'') ''id''),
               (''espnId'', JStr (js_String (opt_prop (opt_prop away ''team'') ''id''))),
               (''name'', opt_prop (opt_prop away ''team'') ''displayName''),
               (''abbreviation'', opt_prop (opt_prop away ''team'') ''abbreviation''),
               (''logo'', opt_prop (opt_prop away ''team'') ''logo''),
               (''score'', number_or (parseInt (opt_prop away ''score'')) JNull),
               (''records'', js_or (opt_prop (opt_index0 (opt_prop away ''records'')) ''summary'') JNull)]),
           (''status'', JObj
              [(''type'', JObj
                  [(''id'', opt_prop (opt_prop (opt_prop event ''status'') ''type'') ''id''),
                   (''name'', opt_prop (opt_prop (opt_prop event ''status'') ''type'') ''name''),
                   (''state'', opt_prop (opt_prop (opt_prop event ''status'') ''type'') ''state''),
                   (''detail'', opt_prop (opt_prop (opt_prop event ''status'') ''type'') ''detail'')]),
               (''period'', opt_prop (opt_prop event ''status'') ''period''),
               (''clock'', opt_prop (opt_prop (opt_prop event ''status'') ''type'') ''shortDetail''),
               (''completed'',
                  JBool (opt_prop (opt_prop (opt_prop event ''status'') ''type'') ''state'' = JStr ''post''))]),
           (''startTime'', opt_prop event ''date''),
           (''venue'',
              opt_prop (opt_prop (opt_index0 (opt_prop event ''competitions'')) ''venue'') ''fullName''),
           (''broadcast'',
              js_or (opt_index0 (opt_prop (opt_index0
                       (opt_prop (opt_index0 (opt_prop event ''competitions'')) ''broadcasts''))
                     ''names'')) JNull)])))"

text \<open>What the normaliser reads of a competitor it has found, or the error of the search.\<close>

definition competitor_reads :: "js_error + jsval \<Rightarrow> js_error + jsval list" where
  "competitor_reads r = (case r of Inl e \<Rightarrow> Inl e | Inr h \<Rightarrow>
      Inr [opt_prop h ''team'', number_or (parseInt (opt_prop h ''score'')) JNull, opt_prop h ''records''])"

subsection \<open>\<^verbatim>\<open>_normalizeScoreboard\<close>\<close>

text \<open>\<^verbatim>\<open>events.map(f)\<close> for an \<open>f\<close> that may throw: the first throw ends the map.\<close>

fun map_events :: "(jsval \<Rightarrow> js_error + jsval) \<Rightarrow> jsval list \<Rightarrow> js_error + jsval list" where
  "map_events f [] = Inr []"
| "map_events f (event # events) =
     (case f event of
        Inl err \<Rightarrow> Inl err
      | Inr game \<Rightarrow>
          (case map_events f events of
             Inl err \<Rightarrow> Inl err
           | Inr games \<Rightarrow> Inr (game # games)))"

text \<open>
  \<^verbatim>\<open>_normalizeScoreboard(data, league)\<close>; \<open>stamp\<close> is \<^verbatim>\<open>new Date().toISOString()\<close>.
  \<^verbatim>\<open>data?.events || []\<close> is an array or falsy in every reply of the API; any other
  value has no \<^verbatim>\<open>map\<close> and throws.
\<close>

definition normalizeScoreboard :: "jsval \<Rightarrow> string \<Rightarrow> string \<Rightarrow> js_error + jsval" where
  "normalizeScoreboard payload league stamp =
     (case js_or (opt_prop payload ''events'') (JArr []) of
        JArr events \<Rightarrow>
          (case map_events (\<lambda>event. normalizeGameData event league) events of
             Inl err \<Rightarrow> Inl err
           | Inr games \<Rightarrow>
               Inr (JObj [(''sport'', JStr league),
                          (''league'', JStr (league_label league)),
                          (''lastUpdated'', JStr stamp),
                          (''games'', JArr games)]))
      | _ \<Rightarrow> Inl TypeError)"

subsection \<open>Scoreboard payloads and events\<close>

text \<open>
  An event as the normaliser reads it: the event's own properties \<open>eprops\<close>, its first
  competition with the properties \<open>cprops\<close> and the competitors \<open>cs\<close>, and the further
  competitions \<open>others\<close>, which the normaliser never looks at. \<open>with_score s c\<close> is the
  competitor \<open>c\<close> with its \<^verbatim>\<open>score\<close> property set to \<open>s\<close> (\<open>JUndefined\<close>: no score).
  A scoreboard payload is its own properties \<open>pprops\<close> and its events.
\<close>

definition event_of ::
  "(string \<times> jsval) list \<Rightarrow> (string \<times> jsval) list \<Rightarrow> jsval list \<Rightarrow> jsval list \<Rightarrow> jsval" where
  "event_of eprops cprops others cs =
     JObj ((''competitions'', JArr (JObj ((''competitors'', JArr cs) # cprops) # others)) # eprops)"

definition with_score :: "jsval \<Rightarrow> jsval \<Rightarrow> jsval" where
  "with_score s c = (case c of JObj kvs \<Rightarrow> JObj ((''score'', s) # kvs) | _ \<Rightarrow> c)"

definition payload_of :: "(string \<times> jsval) list \<Rightarrow> jsval list \<Rightarrow> jsval" where
  "payload_of pprops events = JObj ((''events'', JArr events) # pprops)"

text \<open>The event of the repository's test fixtures, with the two scores left open.\<close>

definition mock_competitor :: "string \<Rightarrow> string \<Rightarrow> string \<Rightarrow> string \<Rightarrow> jsval" where
  "mock_competitor side tid tname abbr =
     JObj [(''id'', JStr tid), (''homeAway'', JStr side),
           (''team'', JObj [(''id'', JStr tid), (''displayName'', JStr tname),
                            (''abbreviation'', JStr abbr)]),
           (''records'', JArr [JObj [(''summary'', JStr ''12-3'')]])]"

definition mock_event :: "jsval \<Rightarrow> jsval \<Rightarrow> jsval" where
  "mock_event homeScore awayScore =
     event_of
       [(''id'', JStr ''401673744''),
        (''date'', JStr ''2024-01-17T18:00Z''),
        (''status'', JObj [(''type'', JObj [(''id'', JStr ''3''), (''state'', JStr ''in'')]),
                          (''period'', JNum 2)])]
       [(''id'', JStr ''401673744''),
        (''venue'', JObj [(''fullName'', JStr ''Arrowhead Stadium'')]),
        (''broadcasts'', JArr [JObj [(''names'', JArr [JStr ''CBS''])]])]
       []
       [with_score homeScore (mock_competitor ''home'' ''34'' ''Kansas City Chiefs'' ''KC''),
        with_score awayScore (mock_competitor ''away'' ''25'' ''Houston Texans'' ''HOU'')]"

text \<open>The normalised fixture game, \<^verbatim>\<open>null\<close> standing in should the normaliser throw.\<close>

definition mock_game_with :: "jsval \<Rightarrow> jsval \<Rightarrow> jsval" where
  "mock_game_with homeScore awayScore =
     (case normalizeGameData (mock_event homeScore awayScore) ''nfl'' of
        Inr game \<Rightarrow> game
      | Inl err \<Rightarrow> JNull)"

section \<open>The repositories\<close>

subsection \<open>The relational store\<close>

text \<open>
  The Supabase tables \<^verbatim>\<open>teams\<close> and \<^verbatim>\<open>games\<close> as lists of row objects, the
  \<^verbatim>\<open>BIGSERIAL\<close> counter for new ids, a flag for a store that answers every request with
  an error, and the log of the upsert requests that were issued (table and payload), in
  order. A payload property that is \<^verbatim>\<open>undefined\<close> is not transmitted, so the column gets
  no value.
\<close>

record database =
  teams_table :: "jsval list"
  games_table :: "jsval list"
  next_id :: int
  db_failing :: bool
  upserts :: "(string \<times> jsval list) list"

datatype db_error = DbError

definition table :: "database \<Rightarrow> string \<Rightarrow> jsval list" where
  "table d tableName =
     (if tableName = ''teams'' then teams_table d
      else if tableName = ''games'' then games_table d else [])"

definition set_table :: "database \<Rightarrow> string \<Rightarrow> jsval list \<Rightarrow> database" where
  "set_table d tableName rows =
     (if tableName = ''teams'' then d\<lparr>teams_table := rows\<rparr>
      else if tableName = ''games'' then d\<lparr>games_table := rows\<rparr> else d)"

definition transmitted :: "jsval \<Rightarrow> (string \<times> jsval) list" where
  "transmitted record = (case record of JObj kvs \<Rightarrow> filter (\<lambda>kv. snd kv \<noteq> JUndefined) kvs | _ \<Rightarrow> [])"

text \<open>\<^verbatim>\<open>select('*').eq(field, value)\<close>\<close>

definition db_select_eq :: "database \<Rightarrow> string \<Rightarrow> string \<Rightarrow> jsval \<Rightarrow> db_error + jsval list" where
  "db_select_eq d tableName field v =
     (if db_failing d then Inl DbError
      else Inr (filter (\<lambda>row. opt_prop row field = v) (table d tableName)))"

text \<open>
  One record of \<^verbatim>\<open>upsert(records, {onConflict}).select()\<close>: the row with the same value
  in the conflict column is overwritten and keeps its id, otherwise a row with a fresh id is
  appended. The result is the row written, the table and the id counter.
\<close>

definition db_upsert_one ::
  "string \<Rightarrow> jsval list \<times> jsval list \<times> int \<Rightarrow> jsval \<Rightarrow> jsval list \<times> jsval list \<times> int" where
  "db_upsert_one onConflict acc record =
     (let (written, rows, nid) = acc in
      case List.find (\<lambda>row. opt_prop row onConflict = opt_prop record onConflict) rows of
        Some old \<Rightarrow>
          (let new = JObj ((''id'', opt_prop old ''id'') # transmitted record)
           in (written @ [new], map (\<lambda>row. if row = old then new else row) rows, nid))
      | None \<Rightarrow>
          (let new = JObj ((''id'', JNum nid) # transmitted record)
           in (written @ [new], rows @ [new], nid + 1)))"

definition db_upsert ::
  "database \<Rightarrow> string \<Rightarrow> jsval list \<Rightarrow> string \<Rightarrow> (db_error + jsval list) \<times> database" where
  "db_upsert d tableName records onConflict =
     (let d1 = d\<lparr>upserts := upserts d @ [(tableName, records)]\<rparr> in
      if db_failing d then (Inl DbError, d1)
      else (let (written, rows, nid) =
                  foldl (db_upsert_one onConflict) ([], table d1 tableName, next_id d1) records
            in (Inr written, (set_table d1 tableName rows)\<lparr>next_id := nid\<rparr>)))"

subsection \<open>\<^verbatim>\<open>BaseRepository\<close>\<close>

text \<open>\<^verbatim>\<open>findBy(field, value)\<close> without options: the rows, or \<^verbatim>\<open>[]\<close> on an error.\<close>

definition BaseRepository_findBy :: "database \<Rightarrow> string \<Rightarrow> string \<Rightarrow> jsval \<Rightarrow> jsval" where
  "BaseRepository_findBy d tableName field v =
     (case db_select_eq d tableName field v of
        Inl err \<Rightarrow> JArr []
      | Inr rows \<Rightarrow> JArr rows)"

text \<open>\<^verbatim>\<open>records.length\<close>\<close>

definition js_length :: "jsval \<Rightarrow> jsval" where
  "js_length v =
     (case v of
        JArr xs \<Rightarrow> JNum (int (length xs))
      | JStr s \<Rightarrow> JNum (int (length s))
      | _ \<Rightarrow> opt_prop v ''length'')"

text \<open>
  \<^verbatim>\<open>upsert(records, onConflict)\<close>: every \<^verbatim>\<open>return\<close> gives an array, the rows written
  or \<^verbatim>\<open>[]\<close>.
\<close>

definition BaseRepository_upsert ::
  "database \<Rightarrow> string \<Rightarrow> jsval \<Rightarrow> string \<Rightarrow> jsval \<times> database" where
  "BaseRepository_upsert d tableName records onConflict =
     (if \<not> truthy records \<or> js_length records = JNum 0 then (JArr [], d)
      else (let recordsArray = (case records of JArr xs \<Rightarrow> xs | _ \<Rightarrow> [records]) in
            case db_upsert d tableName recordsArray onConflict of
              (Inl err, d') \<Rightarrow> (JArr [], d')
            | (Inr rows, d') \<Rightarrow> (JArr rows, d')))"

subsection \<open>\<^verbatim>\<open>TeamsRepository\<close>\<close>

definition TeamsRepository_findByEspnId :: "database \<Rightarrow> jsval \<Rightarrow> jsval" where
  "TeamsRepository_findByEspnId d espnId =
     (let teams = BaseRepository_findBy d ''teams'' ''espn_id'' (JStr (js_String espnId))
      in js_or (opt_first teams) JNull)"

text \<open>
  \<^verbatim>\<open>_getLeagueName(sport)\<close>: \<^verbatim>\<open>leagueNames[sport] || sport.toUpperCase()\<close>. The
  table has the keys and names of \<^verbatim>\<open>LEAGUE_CONFIG\<close>; the key looked up is
  \<^verbatim>\<open>String(sport)\<close>, and \<^verbatim>\<open>toUpperCase\<close> exists on strings only.
\<close>

definition getLeagueName :: "jsval \<Rightarrow> js_error + jsval" where
  "getLeagueName sport =
     (case LEAGUE_CONFIG_name (js_String sport) of
        Some n \<Rightarrow> Inr (JStr n)
      | None \<Rightarrow> (case sport of JStr s \<Rightarrow> Inr (JStr (toUpperCase s)) | _ \<Rightarrow> Inl TypeError))"

definition TeamsRepository_upsertFromESPN ::
  "database \<Rightarrow> jsval \<Rightarrow> jsval \<Rightarrow> (js_error + jsval) \<times> database" where
  "TeamsRepository_upsertFromESPN d espnTeamData league =
     (case getLeagueName league of
        Inl err \<Rightarrow> (Inl err, d)
      | Inr leagueName \<Rightarrow>
          (let team = JObj
                 [(''espn_id'', JStr (js_String (js_or (opt_prop espnTeamData ''espnId'')
                                                       (opt_prop espnTeamData ''id'')))),
                  (''sport'', league),
                  (''league'', leagueName),
                  (''name'', opt_prop espnTeamData ''name''),
                  (''abbreviation'', js_or (opt_prop espnTeamData ''abbreviation'') JNull),
                  (''location'', js_or (opt_prop espnTeamData ''location'') JNull),
                  (''logo_url'', js_or (opt_prop espnTeamData ''logo'') JNull),
                  (''color'', js_or (opt_prop espnTeamData ''color'') JNull),
                  (''alternate_color'', js_or (opt_prop espnTeamData ''alternateColor'') JNull)];
               (res, d') = BaseRepository_upsert d ''teams'' team ''espn_id''
           in (Inr res, d')))"

text \<open>
  \<^verbatim>\<open>getOrCreate(espnTeamData, league)\<close>: cache, then store, then upsert. Reading
  \<^verbatim>\<open>espnTeamData.espnId\<close> throws when the team data is missing.
\<close>

definition getOrCreate ::
  "json \<Rightarrow> cacheClient \<times> database \<Rightarrow> jsval \<Rightarrow> jsval \<Rightarrow>
   (js_error + jsval) \<times> cacheClient \<times> database" where
  "getOrCreate J s espnTeamData league =
     (let (c, d) = s in
      case get_prop espnTeamData ''espnId'' of
        Inl err \<Rightarrow> (Inl err, c, d)
      | Inr espnId \<Rightarrow>
          (let cacheKey = generateCacheKey ''team'' [espnId];
               hit = CacheClient_get J c cacheKey
           in if truthy hit then (Inr hit, c, d)
              else (let found = TeamsRepository_findByEspnId d espnId in
                    case (if \<not> truthy found then TeamsRepository_upsertFromESPN d espnTeamData league
                          else (Inr found, d)) of
                      (Inl err, d') \<Rightarrow> (Inl err, c, d')
                    | (Inr team, d') \<Rightarrow>
                        (let c' = (if truthy team
                                   then snd (CacheClient_set J c cacheKey team (Some 604800))
                                   else c)
                         in (Inr team, c', d')))))"

subsection \<open>\<^verbatim>\<open>GamesRepository\<close>\<close>

text \<open>
  \<^verbatim>\<open>upsertFromESPN(espnGameData)\<close>. The two \<^verbatim>\<open>getOrCreate\<close> calls are awaited one
  after the other, then comes the guard \<^verbatim>\<open>if (!homeTeam || !awayTeam) return null\<close>, then
  the game object and its upsert. Plain property reads on a missing object throw.
\<close>

definition GamesRepository_upsertFromESPN ::
  "json \<Rightarrow> cacheClient \<times> database \<Rightarrow> jsval \<Rightarrow> (js_error + jsval) \<times> cacheClient \<times> database" where
  "GamesRepository_upsertFromESPN J s espnGameData =
     (case get_prop espnGameData ''homeTeam'' of
        Inl err \<Rightarrow> (Inl err, s)
      | Inr homeData \<Rightarrow>
     (case getOrCreate J s homeData (opt_prop espnGameData ''sport'') of
        (Inl err, s1) \<Rightarrow> (Inl err, s1)
      | (Inr homeTeam, s1) \<Rightarrow>
     (case getOrCreate J s1 (opt_prop espnGameData ''awayTeam'') (opt_prop espnGameData ''sport'') of
        (Inl err, s2) \<Rightarrow> (Inl err, s2)
      | (Inr awayTeam, s2) \<Rightarrow>
          if \<not> truthy homeTeam \<or> \<not> truthy awayTeam then (Inr JNull, s2)
          else
     (case get_prop (opt_prop espnGameData ''status'') ''type'' of
        Inl err \<Rightarrow> (Inl err, s2)
      | Inr statusType \<Rightarrow>
     (case get_prop statusType ''state'' of
        Inl err \<Rightarrow> (Inl err, s2)
      | Inr state \<Rightarrow>
          (let game = JObj
                 [(''espn_id'', opt_prop espnGameData ''espnId''),
                  (''sport'', opt_prop espnGameData ''sport''),
                  (''league'', opt_prop espnGameData ''league''),
                  (''home_team_id'', opt_prop homeTeam ''id''),
                  (''away_team_id'', opt_prop awayTeam ''id''),
                  (''home_score'', opt_prop homeData ''score''),
                  (''away_score'', opt_prop (opt_prop espnGameData ''awayTeam'') ''score''),
                  (''status'', state),
                  (''period'', js_or (opt_prop (opt_prop espnGameData ''status'') ''period'') JNull),
                  (''clock'', js_or (opt_prop (opt_prop espnGameData ''status'') ''clock'') JNull),
                  (''start_time'', js_or (opt_prop espnGameData ''startTime'') JNull),
                  (''venue'', js_or (opt_prop espnGameData ''venue'') JNull),
                  (''broadcast'', js_or (opt_prop espnGameData ''broadcast'') JNull)];
               (res, d') = BaseRepository_upsert (snd s2) ''games'' game ''espn_id''
           in (Inr res, fst s2, d')))))))"

text \<open>\<^verbatim>\<open>_clearSportCache(sport)\<close>\<close>

definition clearSportCache :: "cacheClient \<Rightarrow> jsval \<Rightarrow> cacheClient" where
  "clearSportCache c sport =
     (let c1 = snd (CacheClient_delPattern c (''scores:'' @ js_String sport @ '':*''))
      in snd (CacheClient_delPattern c1 (''games:'' @ js_String sport @ '':*'')))"

text \<open>
  The loop of \<^verbatim>\<open>syncFromScoreboard\<close>: the state, the results and the ids of the failed
  games. A game whose upsert returned something falsy or threw is a failed one.
\<close>

fun sync_games ::
  "json \<Rightarrow> cacheClient \<times> database \<Rightarrow> jsval list \<Rightarrow> jsval list \<Rightarrow> jsval list \<Rightarrow>
   (cacheClient \<times> database) \<times> jsval list \<times> jsval list" where
  "sync_games J s results failed [] = (s, results, failed)"
| "sync_games J s results failed (game # games) =
     (case GamesRepository_upsertFromESPN J s game of
        (Inr result, s') \<Rightarrow>
          if truthy result then sync_games J s' (results @ [result]) failed games
          else sync_games J s' results (failed @ [opt_prop game ''espnId'']) games
      | (Inl err, s') \<Rightarrow> sync_games J s' results (failed @ [opt_prop game ''espnId'']) games)"

text \<open>
  \<^verbatim>\<open>syncFromScoreboard(scoreboardData)\<close>, for a scoreboard whose \<^verbatim>\<open>games\<close> is an array
  or falsy, as the normaliser produces it.
\<close>

definition syncFromScoreboard ::
  "json \<Rightarrow> cacheClient \<times> database \<Rightarrow> jsval \<Rightarrow> jsval \<times> cacheClient \<times> database" where
  "syncFromScoreboard J s scoreboardData =
     (let games = (case js_or (opt_prop scoreboardData ''games'') (JArr []) of
                     JArr gs \<Rightarrow> gs | _ \<Rightarrow> []);
          ((c, d), results, failed) = sync_games J s [] [] games;
          c' = clearSportCache c (opt_prop scoreboardData ''sport'')
      in (JObj [(''successful'', JNum (int (length results))),
                (''failed'', JNum (int (length failed))),
                (''total'', js_or (js_length (opt_prop scoreboardData ''games'')) (JNum 0))],
          c', d))"

subsection \<open>Concrete stores and scoreboards\<close>

definition db_empty :: database where
  "db_empty = \<lparr>teams_table = [], games_table = [], next_id = 1, db_failing = False, upserts = []\<rparr>"

definition db_down :: database where
  "db_down = db_empty\<lparr>db_failing := True\<rparr>"

definition mock_game :: jsval where
  "mock_game = mock_game_with (JStr ''14'') (JStr ''10'')"

definition mock_scoreboard :: jsval where
  "mock_scoreboard =
     JObj [(''sport'', JStr ''nfl''), (''league'', JStr ''NFL''),
           (''lastUpdated'', JStr ''2024-01-17T18:05Z''), (''games'', JArr [mock_game])]"

text \<open>The payloads of the upsert requests on one table, in the order they were issued.\<close>

definition requests_on :: "string \<Rightarrow> database \<Rightarrow> jsval list" where
  "requests_on tableName d = concat (map snd (filter (\<lambda>u. fst u = tableName) (upserts d)))"

section \<open>Properties of the circuit breaker and the retry loop\<close>

declare fetchWithRetry.simps [simp del]

lemma isCircuitOpen_cooled:
  "isOpen (breaker w) \<Longrightarrow> timeSinceLastFailure w > resetTimeout (breaker w) \<Longrightarrow>
   isCircuitOpen w = (False, w\<lparr>breaker := (breaker w)\<lparr>isOpen := False, failureCount := 0\<rparr>\<rparr>)"
  by (simp add: isCircuitOpen_def)

lemma isCircuitOpen_requests: "requests (snd (isCircuitOpen w)) = requests w"
  by (simp add: isCircuitOpen_def)

lemma isCircuitOpen_now: "now (snd (isCircuitOpen w)) = now w"
  by (simp add: isCircuitOpen_def)

lemma handleError_response:
  "response e = Some st \<Longrightarrow>
     handleError e w =
       w\<lparr>breaker := (breaker w)\<lparr>failureCount := Suc (failureCount (breaker w)),
                                 lastFailureTime := Some (now w),
                                 isOpen := (isOpen (breaker w) \<or>
                                            threshold (breaker w) \<le> Suc (failureCount (breaker w)))\<rparr>\<rparr>"
  apply (cases w)
  apply (cases "breaker w")
  apply (simp add: handleError_def Let_def)
  done

lemma handleError_no_response: "response e = None \<Longrightarrow> handleError e w = w"
  by (simp add: handleError_def)

lemma handleError_requests: "requests (handleError e w) = requests w"
  by (simp add: handleError_def Let_def split: option.splits)

lemma handleError_now: "now (handleError e w) = now w"
  by (simp add: handleError_def Let_def split: option.splits)

lemma client_request_requests: "requests (snd (client_request net w)) = Suc (requests w)"
  by (simp add: client_request_def Let_def handleError_requests split: prod.splits outcome.splits)

lemma client_request_now: "now w \<le> now (snd (client_request net w))"
  by (simp add: client_request_def Let_def handleError_now split: prod.splits outcome.splits)

text \<open>One call issues at most \<open>retries + 1\<close> requests.\<close>

lemma fetchWithRetry_requests_le:
  "requests (snd (fetchWithRetry net d r w)) \<le> requests w + Suc r"
proof (induction r arbitrary: w)
  case 0
  show ?case
    using isCircuitOpen_requests[of w] client_request_requests[of net "snd (isCircuitOpen w)"]
    by (subst fetchWithRetry.simps) (auto split: prod.splits sum.splits bool.splits)
next
  case (Suc r)
  show ?case
    using isCircuitOpen_requests[of w] client_request_requests[of net "snd (isCircuitOpen w)"]
      Suc.IH[of "delay d (snd (client_request net (snd (isCircuitOpen w))))"]
    by (subst fetchWithRetry.simps) (auto simp: delay_def split: prod.splits sum.splits bool.splits)
qed

text \<open>The clock never runs backwards during a call.\<close>

lemma fetchWithRetry_now_le: "now w \<le> now (snd (fetchWithRetry net d r w))"
proof (induction r arbitrary: w)
  case 0
  show ?case
    using isCircuitOpen_now[of w] client_request_now[of "snd (isCircuitOpen w)" net]
    by (subst fetchWithRetry.simps) (auto split: prod.splits sum.splits bool.splits)
next
  case (Suc r)
  show ?case
    using isCircuitOpen_now[of w] client_request_now[of "snd (isCircuitOpen w)" net]
      Suc.IH[of "delay d (snd (client_request net (snd (isCircuitOpen w))))"]
    by (subst fetchWithRetry.simps) (auto simp: delay_def split: prod.splits sum.splits bool.splits)
qed

text \<open>A call that returns data leaves the failure counter at 0 and has used the network.\<close>

lemma fetchWithRetry_success_count:
  "fetchWithRetry net d r w = (Inr x, w') \<Longrightarrow> failureCount (breaker w') = 0"
proof (induction r arbitrary: w)
  case 0
  then show ?case
    by (subst (asm) fetchWithRetry.simps) (auto split: prod.splits sum.splits bool.splits)
next
  case (Suc r)
  from Suc.prems show ?case
    by (subst (asm) fetchWithRetry.simps)
       (auto split: prod.splits sum.splits bool.splits if_splits dest: Suc.IH)
qed

lemma fetchWithRetry_success_requests:
  "fetchWithRetry net d r w = (Inr x, w') \<Longrightarrow> requests w < requests w'"
proof (induction r arbitrary: w)
  case 0
  then show ?case
    using isCircuitOpen_requests[of w] client_request_requests[of net "snd (isCircuitOpen w)"]
    by (subst (asm) fetchWithRetry.simps) (auto split: prod.splits sum.splits bool.splits)
next
  case (Suc r)
  from Suc.prems show ?case
    using isCircuitOpen_requests[of w] client_request_requests[of net "snd (isCircuitOpen w)"]
    by (subst (asm) fetchWithRetry.simps)
       (auto simp: delay_def split: prod.splits sum.splits bool.splits if_splits dest!: Suc.IH)
qed

text \<open>
  When every attempt is answered with a status of 500 or more and the threshold stays out of
  reach, a single call with \<open>r\<close> retries makes \<open>r + 1\<close> attempts and counts each of them.
\<close>

lemma all_http_errors_counted:
  assumes "\<And>n. \<exists>e took st. net n = (Rejected e, took) \<and> response e = Some st \<and> 500 \<le> st"
  shows "\<not> isOpen (breaker w) \<Longrightarrow> failureCount (breaker w) + Suc r < threshold (breaker w) \<Longrightarrow>
     failureCount (breaker (snd (fetchWithRetry net d r w))) = failureCount (breaker w) + Suc r
     \<and> requests (snd (fetchWithRetry net d r w)) = requests w + Suc r"
proof (induction r arbitrary: w)
  case 0
  obtain e took st where n: "net (requests w) = (Rejected e, took)" "response e = Some st" "500 \<le> st"
    using assms by blast
  show ?case using 0 n
    by (subst (1 2) fetchWithRetry.simps)
       (simp add: isCircuitOpen_def client_request_def handleError_response)
next
  case (Suc r)
  obtain e took st where n: "net (requests w) = (Rejected e, took)" "response e = Some st" "500 \<le> st"
    using assms by blast
  let ?w2 = "snd (client_request net w)"
  have b: "\<not> isOpen (breaker ?w2)" "failureCount (breaker ?w2) = Suc (failureCount (breaker w))"
      "threshold (breaker ?w2) = threshold (breaker w)" "requests ?w2 = Suc (requests w)"
    using n Suc.prems by (simp_all add: client_request_def handleError_response)
  have r: "isRetryable e" using n by (simp add: isRetryable_def)
  have step: "fetchWithRetry net d (Suc r) w = fetchWithRetry net d r (delay d ?w2)"
    using Suc.prems r n
    by (subst fetchWithRetry.simps) (simp add: isCircuitOpen_def client_request_def)
  have "failureCount (breaker (snd (fetchWithRetry net d r (delay d ?w2)))) =
          failureCount (breaker (delay d ?w2)) + Suc r
        \<and> requests (snd (fetchWithRetry net d r (delay d ?w2))) = requests (delay d ?w2) + Suc r"
    using b Suc.prems by (intro Suc.IH) (simp_all add: delay_def)
  then show ?case using b by (simp add: step delay_def)
qed

text \<open>
  Claim C1. A call through \<^verbatim>\<open>_fetchWithRetry\<close> that finds the breaker open, with no more
  than the reset cooldown elapsed since the last recorded failure, fails at once with the
  circuit-open error; the world it returns is the one it was given, so no request has been
  issued, the clock has not moved and the breaker is as it was.
\<close>

theorem fetchWithRetry_open_fails_fast:
  assumes "isOpen (breaker w)" and "timeSinceLastFailure w \<le> resetTimeout (breaker w)"
  shows "fetchWithRetry net retryDelay retries w = (Inl CircuitOpenError, w)"
  using assms by (simp add: fetchWithRetry.simps isCircuitOpen_def)

theorem fetchWithRetry_open_fails_fast_witness:
  "isOpen (breaker w_open) \<and> timeSinceLastFailure w_open \<le> resetTimeout (breaker w_open) \<and>
   fetchWithRetry always500 1000 3 w_open = (Inl CircuitOpenError, w_open) \<and>
   requests w_open = 7"
  using fetchWithRetry_open_fails_fast[of w_open always500 1000 3]
  by (simp add: w_open_def espn_circuitBreaker_def timeSinceLastFailure_def)

text \<open>
  Claim C2, as the code has it. The claim (one half-open probe; a failed probe re-opens the
  breaker at once) does not hold: \<^verbatim>\<open>_isCircuitOpen\<close> itself closes the breaker and zeroes the counter
  before the attempt, so a failed attempt only brings the counter to 1. First the
  counterexample: with the ESPN threshold of 5, one millisecond after the cooldown, a call
  whose only attempt is answered with HTTP 500 leaves the breaker closed, and the next call
  is let through to the network as well.
\<close>

theorem failed_probe_counterexample:
  "\<not> isOpen (breaker (snd (fetchWithRetry always500 1000 0 w_cooled))) \<and>
   requests (snd (fetchWithRetry always500 1000 0
                    (snd (fetchWithRetry always500 1000 0 w_cooled)))) = requests w_cooled + 2"
  by (simp add: fetchWithRetry.simps isCircuitOpen_def w_cooled_def w_open_def
      espn_circuitBreaker_def timeSinceLastFailure_def client_request_def always500_def
      http_error_def handleError_response)

text \<open>
  Claim C2, amended: when a call finds the breaker open with the cooldown elapsed, the
  breaker check closes the breaker and resets the counter to 0 before any attempt; if the first attempt
  succeeds the call returns its data with the breaker closed and the counter 0; if a call
  without retries fails with an HTTP error response the counter is 1, the last-failure time
  is the time of that response, and the breaker is open again only when the threshold is at
  most 1.
\<close>

theorem cooldown_elapsed_closes_breaker:
  assumes "isOpen (breaker w)" and "timeSinceLastFailure w > resetTimeout (breaker w)"
  shows "isCircuitOpen w = (False, w\<lparr>breaker := (breaker w)\<lparr>isOpen := False, failureCount := 0\<rparr>\<rparr>) \<and>
         (net (requests w) = (Response x, took) \<longrightarrow>
            fetchWithRetry net d r w =
              (Inr x, w\<lparr>breaker := (breaker w)\<lparr>isOpen := False, failureCount := 0\<rparr>,
                       now := now w + int took, requests := Suc (requests w)\<rparr>)) \<and>
         (net (requests w) = (Rejected e, took) \<and> response e = Some st \<longrightarrow>
            fetchWithRetry net d 0 w =
              (Inl (UpstreamError e),
               w\<lparr>breaker := (breaker w)\<lparr>isOpen := (threshold (breaker w) \<le> 1), failureCount := 1,
                                         lastFailureTime := Some (now w + int took)\<rparr>,
                 now := now w + int took, requests := Suc (requests w)\<rparr>))"
proof (intro conjI impI)
  show g: "isCircuitOpen w = (False, w\<lparr>breaker := (breaker w)\<lparr>isOpen := False, failureCount := 0\<rparr>\<rparr>)"
    using assms by (rule isCircuitOpen_cooled)
  show "fetchWithRetry net d r w =
          (Inr x, w\<lparr>breaker := (breaker w)\<lparr>isOpen := False, failureCount := 0\<rparr>,
                   now := now w + int took, requests := Suc (requests w)\<rparr>)"
    if "net (requests w) = (Response x, took)"
    using that by (subst fetchWithRetry.simps) (simp add: g client_request_def)
  show "fetchWithRetry net d 0 w =
          (Inl (UpstreamError e),
           w\<lparr>breaker := (breaker w)\<lparr>isOpen := (threshold (breaker w) \<le> 1), failureCount := 1,
                                     lastFailureTime := Some (now w + int took)\<rparr>,
             now := now w + int took, requests := Suc (requests w)\<rparr>)"
    if "net (requests w) = (Rejected e, took) \<and> response e = Some st"
    using that by (subst fetchWithRetry.simps) (simp add: g client_request_def handleError_response)
qed

theorem cooldown_elapsed_closes_breaker_witness:
  "isOpen (breaker w_cooled) \<and> timeSinceLastFailure w_cooled > resetTimeout (breaker w_cooled) \<and>
   always500 (requests w_cooled) = (Rejected (http_error 500), 20) \<and>
   response (http_error 500) = Some 500 \<and>
   isCircuitOpen w_cooled =
     (False, w_cooled\<lparr>breaker := (breaker w_cooled)\<lparr>isOpen := False, failureCount := 0\<rparr>\<rparr>) \<and>
   fetchWithRetry always500 1000 0 w_cooled =
     (Inl (UpstreamError (http_error 500)),
      \<lparr>breaker = \<lparr>isOpen = False, failureCount = 1, lastFailureTime = Some 31021,
                  threshold = 5, resetTimeout = 30000\<rparr>,
       now = 31021, requests = 8\<rparr>)"
proof -
  have h: "isOpen (breaker w_cooled)" "timeSinceLastFailure w_cooled > resetTimeout (breaker w_cooled)"
    by (simp_all add: w_cooled_def w_open_def espn_circuitBreaker_def timeSinceLastFailure_def)
  have n: "always500 (requests w_cooled) = (Rejected (http_error 500), 20)"
    "response (http_error 500) = Some 500"
    by (simp_all add: always500_def http_error_def)
  show ?thesis
    using cooldown_elapsed_closes_breaker[OF h, of always500 "()" 20 1000 0 "http_error 500" 500] h n
    by (simp add: w_cooled_def w_open_def espn_circuitBreaker_def)
qed

text \<open>
  Claim C3, as the code has it. The counter is not incremented once per call that exhausts
  its retries: \<^verbatim>\<open>_handleError\<close> is an interceptor and runs for every attempt, and only
  in its \<^verbatim>\<open>error.response\<close> branch. The counterexample: on a fresh breaker, one call with
  3 retries against a server that always answers 500 counts 4 failures, and one call against
  a server that always times out (no response) makes its 4 attempts and counts none.
\<close>

theorem failure_count_counterexample:
  "failureCount (breaker (snd (fetchWithRetry always500 1000 3 w_fresh))) = 4 \<and>
   requests (snd (fetchWithRetry alwaysTimeout 1000 3 w_fresh)) = 4 \<and>
   failureCount (breaker (snd (fetchWithRetry alwaysTimeout 1000 3 w_fresh))) = 0 \<and>
   lastFailureTime (breaker (snd (fetchWithRetry alwaysTimeout 1000 3 w_fresh))) = None"
  by (simp add: fetchWithRetry.simps isCircuitOpen_def w_fresh_def espn_circuitBreaker_def
      client_request_def always500_def alwaysTimeout_def http_error_def timeout_error_def
      handleError_response handleError_no_response isRetryable_def delay_def)

text \<open>
  Claim C3, amended: every attempt that is answered with an HTTP error response increments
  the counter by one and sets the last-failure time to the time of that response, and the
  breaker is open afterwards exactly when it was open before or the new count has reached
  the threshold; an attempt that fails without a response leaves the breaker untouched. So
  a call whose \<open>r + 1\<close> attempts are all answered with a status of 500 or more, the
  threshold being out of reach, adds \<open>r + 1\<close> to the counter.
\<close>

theorem failures_counted_per_attempt:
  "(net (requests w) = (Rejected e, took) \<and> response e = Some st \<longrightarrow>
      breaker (snd (client_request net w)) =
        (breaker w)\<lparr>failureCount := Suc (failureCount (breaker w)),
                     lastFailureTime := Some (now w + int took),
                     isOpen := (isOpen (breaker w) \<or>
                                threshold (breaker w) \<le> Suc (failureCount (breaker w)))\<rparr>) \<and>
   (net (requests w) = (Rejected e, took) \<and> response e = None \<longrightarrow>
      breaker (snd (client_request net w)) = breaker w) \<and>
   ((\<forall>n. \<exists>e took st. net n = (Rejected e, took) \<and> response e = Some st \<and> 500 \<le> st) \<and>
    \<not> isOpen (breaker w) \<and> failureCount (breaker w) + Suc r < threshold (breaker w) \<longrightarrow>
      failureCount (breaker (snd (fetchWithRetry net d r w))) = failureCount (breaker w) + Suc r \<and>
      requests (snd (fetchWithRetry net d r w)) = requests w + Suc r)"
proof (intro conjI impI)
  show "breaker (snd (client_request net w)) =
        (breaker w)\<lparr>failureCount := Suc (failureCount (breaker w)),
                     lastFailureTime := Some (now w + int took),
                     isOpen := (isOpen (breaker w) \<or>
                                threshold (breaker w) \<le> Suc (failureCount (breaker w)))\<rparr>"
    if "net (requests w) = (Rejected e, took) \<and> response e = Some st"
    using that by (simp add: client_request_def handleError_response)
  show "breaker (snd (client_request net w)) = breaker w"
    if "net (requests w) = (Rejected e, took) \<and> response e = None"
    using that by (simp add: client_request_def handleError_no_response)
  assume a: "(\<forall>n. \<exists>e took st. net n = (Rejected e, took) \<and> response e = Some st \<and> 500 \<le> st) \<and>
    \<not> isOpen (breaker w) \<and> failureCount (breaker w) + Suc r < threshold (breaker w)"
  then have "failureCount (breaker (snd (fetchWithRetry net d r w))) = failureCount (breaker w) + Suc r
     \<and> requests (snd (fetchWithRetry net d r w)) = requests w + Suc r"
    by (intro all_http_errors_counted) auto
  then show "failureCount (breaker (snd (fetchWithRetry net d r w))) = failureCount (breaker w) + Suc r"
    and "requests (snd (fetchWithRetry net d r w)) = requests w + Suc r"
    by simp_all
qed

theorem failures_counted_per_attempt_witness:
  "(\<forall>n. \<exists>e took st. always500 n = (Rejected e, took) \<and> response e = Some st \<and> 500 \<le> st) \<and>
   \<not> isOpen (breaker w_fresh) \<and> failureCount (breaker w_fresh) + Suc 3 < threshold (breaker w_fresh) \<and>
   failureCount (breaker w_fresh) = 0 \<and>
   failureCount (breaker (snd (fetchWithRetry always500 1000 3 w_fresh))) = 4 \<and>
   requests (snd (fetchWithRetry always500 1000 3 w_fresh)) = 4"
proof -
  have a: "\<forall>n. \<exists>e took st. always500 n = (Rejected e, took) \<and> response e = Some st \<and> 500 \<le> st"
    by (simp add: always500_def http_error_def)
  have b: "\<not> isOpen (breaker w_fresh)" "failureCount (breaker w_fresh) + Suc 3 < threshold (breaker w_fresh)"
    "failureCount (breaker w_fresh) = 0" "requests w_fresh = 0"
    by (simp_all add: w_fresh_def espn_circuitBreaker_def)
  show ?thesis
    using failures_counted_per_attempt[of always500 w_fresh _ _ _ 3 1000] a b by simp
qed

text \<open>
  Claim C4, as the code has it. \<^verbatim>\<open>_isRetryable\<close> does not classify as the claim says:
  for the ESPN client an HTTP 408 is terminal, and every status from 500 up is retryable,
  501 for one. So a call that is answered with 408 makes one request and gives up, with
  three retries in hand.
\<close>

theorem isRetryable_counterexample:
  "\<not> isRetryable (http_error 408) \<and> isRetryable (http_error 501) \<and>
   requests (snd (fetchWithRetry always408 1000 3 w_fresh)) = 1 \<and>
   fst (fetchWithRetry always408 1000 3 w_fresh) = Inl (UpstreamError (http_error 408))"
  by (simp add: isRetryable_def http_error_def fetchWithRetry.simps isCircuitOpen_def
      w_fresh_def espn_circuitBreaker_def client_request_def always408_def handleError_response)

text \<open>
  Claim C4, amended: a failed attempt is retryable exactly when its error code is
  \<^verbatim>\<open>ECONNABORTED\<close> or \<^verbatim>\<open>ETIMEDOUT\<close>, or it carries an HTTP response whose status is
  at least 500 or is 429. A call never issues more than \<open>retries + 1\<close> requests. On a
  closed breaker, a first attempt that fails terminally propagates its error after that one
  request, with no delay; one that fails retryably, with retries left, is followed after
  the delay by the same call with one retry fewer (which passes the breaker check again).
\<close>

theorem retry_policy:
  "(isRetryable e \<longleftrightarrow>
      code e = Some ''ECONNABORTED'' \<or> code e = Some ''ETIMEDOUT'' \<or>
      (\<exists>st. response e = Some st \<and> (500 \<le> st \<or> st = 429))) \<and>
   requests (snd (fetchWithRetry net d r w)) \<le> requests w + Suc r \<and>
   (\<not> isOpen (breaker w) \<and> net (requests w) = (Rejected e, took) \<and> \<not> isRetryable e \<longrightarrow>
      fst (fetchWithRetry net d r w) = Inl (UpstreamError e) \<and>
      requests (snd (fetchWithRetry net d r w)) = Suc (requests w) \<and>
      now (snd (fetchWithRetry net d r w)) = now w + int took) \<and>
   (\<not> isOpen (breaker w) \<and> net (requests w) = (Rejected e, took) \<and> isRetryable e \<and> 0 < r \<longrightarrow>
      fetchWithRetry net d r w =
        fetchWithRetry net d (r - 1) (delay d (snd (client_request net w))))"
proof (intro conjI impI)
  show "isRetryable e \<longleftrightarrow>
      code e = Some ''ECONNABORTED'' \<or> code e = Some ''ETIMEDOUT'' \<or>
      (\<exists>st. response e = Some st \<and> (500 \<le> st \<or> st = 429))"
    by (auto simp: isRetryable_def split: option.splits)
  show "requests (snd (fetchWithRetry net d r w)) \<le> requests w + Suc r"
    by (rule fetchWithRetry_requests_le)
  assume t: "\<not> isOpen (breaker w) \<and> net (requests w) = (Rejected e, took) \<and> \<not> isRetryable e"
  then have f: "fetchWithRetry net d r w = (Inl (UpstreamError e), snd (client_request net w))"
    by (subst fetchWithRetry.simps) (simp add: isCircuitOpen_def client_request_def)
  show "fst (fetchWithRetry net d r w) = Inl (UpstreamError e)"
    by (simp add: f)
  show "requests (snd (fetchWithRetry net d r w)) = Suc (requests w)"
    by (simp add: f client_request_requests)
  show "now (snd (fetchWithRetry net d r w)) = now w + int took"
    using t by (simp add: f client_request_def handleError_now)
next
  assume "\<not> isOpen (breaker w) \<and> net (requests w) = (Rejected e, took) \<and> isRetryable e \<and> 0 < r"
  then show "fetchWithRetry net d r w =
        fetchWithRetry net d (r - 1) (delay d (snd (client_request net w)))"
    by (subst fetchWithRetry.simps) (simp add: isCircuitOpen_def client_request_def)
qed

theorem retry_policy_witness:
  "\<not> isOpen (breaker w_fresh) \<and> always404 (requests w_fresh) = (Rejected (http_error 404), 20) \<and>
   \<not> isRetryable (http_error 404) \<and>
   fst (fetchWithRetry always404 1000 3 w_fresh) = Inl (UpstreamError (http_error 404)) \<and>
   requests (snd (fetchWithRetry always404 1000 3 w_fresh)) = 1 \<and>
   now (snd (fetchWithRetry always404 1000 3 w_fresh)) = 20"
proof -
  have a: "\<not> isOpen (breaker w_fresh)" "always404 (requests w_fresh) = (Rejected (http_error 404), 20)"
    "\<not> isRetryable (http_error 404)" "requests w_fresh = 0" "now w_fresh = 0"
    by (simp_all add: w_fresh_def espn_circuitBreaker_def always404_def isRetryable_def http_error_def)
  show ?thesis
    using retry_policy[of "http_error 404" always404 1000 3 w_fresh 20] a by simp
qed

text \<open>
  Claim C9, as the code has it. \<^verbatim>\<open>healthCheck()\<close> runs the breaker check and then the
  same \<^verbatim>\<open>_fetchWithRetry\<close> as every data call, so it does change the breaker. The
  counterexample: a closed breaker with 4 counted failures lets a data call through; after
  one health check answered with HTTP 500 the breaker is open and the same data call is
  refused; and a health check that succeeds zeroes the counter.
\<close>

theorem healthCheck_counterexample:
  "fst (fetchWithRetry alwaysOk 1000 0 w_four) = Inr () \<and>
   isOpen (breaker (snd (healthCheck always500 1000 0 w_four))) \<and>
   fst (fetchWithRetry alwaysOk 1000 0 (snd (healthCheck always500 1000 0 w_four))) =
     Inl CircuitOpenError \<and>
   failureCount (breaker w_four) = 4 \<and>
   failureCount (breaker (snd (healthCheck alwaysOk 1000 0 w_four))) = 0"
  by (simp add: healthCheck_def fetchWithRetry.simps isCircuitOpen_def w_four_def
      espn_circuitBreaker_def timeSinceLastFailure_def client_request_def always500_def
      alwaysOk_def http_error_def handleError_response)

text \<open>
  Claim C9, amended: \<^verbatim>\<open>healthCheck()\<close> leaves the breaker, the clock and the network
  untouched in its first branch, when the check finds the breaker open within the
  cooldown, and then reports unhealthy with the last-failure time (and neither latency nor
  breaker flag). Otherwise it makes a fetch like any data call: a healthy report
  carries a latency that is not negative and the flag \<^verbatim>\<open>circuitBreakerOpen: false\<close>, at
  least one request has been issued and the failure counter is 0 afterwards; an unhealthy
  report carries the breaker's open flag as the check left it.
\<close>

theorem healthCheck_report:
  "(isOpen (breaker w) \<and> timeSinceLastFailure w \<le> resetTimeout (breaker w) \<longrightarrow>
      healthCheck net d r w = (UnhealthyBreaker (lastFailureTime (breaker w)), w)) \<and>
   (case healthCheck net d r w of
      (UnhealthyBreaker t, w') \<Rightarrow> w' = w \<and> isOpen (breaker w) \<and> t = lastFailureTime (breaker w)
    | (Healthy l b, w') \<Rightarrow>
        \<not> b \<and> 0 \<le> l \<and> failureCount (breaker w') = 0 \<and> requests w < requests w'
    | (Unhealthy m b, w') \<Rightarrow> b = isOpen (breaker w'))"
proof (intro conjI impI)
  assume "isOpen (breaker w) \<and> timeSinceLastFailure w \<le> resetTimeout (breaker w)"
  then show "healthCheck net d r w = (UnhealthyBreaker (lastFailureTime (breaker w)), w)"
    by (simp add: healthCheck_def isCircuitOpen_def)
next
  show "case healthCheck net d r w of
      (UnhealthyBreaker t, w') \<Rightarrow> w' = w \<and> isOpen (breaker w) \<and> t = lastFailureTime (breaker w)
    | (Healthy l b, w') \<Rightarrow>
        \<not> b \<and> 0 \<le> l \<and> failureCount (breaker w') = 0 \<and> requests w < requests w'
    | (Unhealthy m b, w') \<Rightarrow> b = isOpen (breaker w')"
  proof (cases "isCircuitOpen w")
    case (Pair op w1)
    show ?thesis
    proof (cases op)
      case True
      with Pair show ?thesis
        by (auto simp: healthCheck_def isCircuitOpen_def split: if_splits)
    next
      case False
      obtain res w2 where f: "fetchWithRetry net d r w1 = (res, w2)"
        by (cases "fetchWithRetry net d r w1")
      have n: "now w1 \<le> now w2"
        using fetchWithRetry_now_le[of w1 net d r] f by simp
      show ?thesis
      proof (cases res)
        case (Inl err)
        with Pair False f show ?thesis by (simp add: healthCheck_def)
      next
        case (Inr x)
        have c: "failureCount (breaker w2) = 0"
          using f Inr fetchWithRetry_success_count[of net d r w1 x w2] by simp
        have "requests w1 = requests w"
          using isCircuitOpen_requests[of w] Pair by simp
        then have q: "requests w < requests w2"
          using f Inr fetchWithRetry_success_requests[of net d r w1 x w2] by simp
        from Pair False f Inr n c q show ?thesis by (simp add: healthCheck_def)
      qed
    qed
  qed
qed

theorem healthCheck_report_witness:
  "isOpen (breaker w_open) \<and> timeSinceLastFailure w_open \<le> resetTimeout (breaker w_open) \<and>
   healthCheck always500 1000 3 w_open = (UnhealthyBreaker (Some 1000), w_open)"
proof -
  have h: "isOpen (breaker w_open) \<and> timeSinceLastFailure w_open \<le> resetTimeout (breaker w_open)"
    "lastFailureTime (breaker w_open) = Some 1000"
    by (simp_all add: w_open_def espn_circuitBreaker_def timeSinceLastFailure_def)
  show ?thesis
    using healthCheck_report[of w_open always500 1000 3] h by simp
qed

section \<open>Properties of the cache client\<close>

lemma redis_get_put:
  assumes "\<not> failing r" and "dt < ttl"
  shows "redis_get ((redis_put r k v (Some (clock r + ttl)))\<lparr>clock := clock r + dt\<rparr>) k = Inr (Some v)"
  using assms by (simp add: redis_get_def redis_put_def live_def)

lemma redis_get_put_now:
  assumes "\<not> failing r" and "0 < ttl"
  shows "redis_get (redis_put r k v (Some (clock r + ttl))) k = Inr (Some v)"
  using assms by (simp add: redis_get_def redis_put_def live_def)

lemma CACHE_TTL_nonzero: "CACHE_TTL env dataType = Some t \<Longrightarrow> t \<noteq> 0"
  by (auto simp: CACHE_TTL_def env_or_def split: if_splits option.splits)

lemma get_cache_up: "CacheClient_get JSON cache_up ''scores:nba'' = JNull"
  by (simp add: CacheClient_get_def cache_up_def redis_empty_def redis_get_def)

lemma get_cache_seven: "CacheClient_get JSON cache_seven ''scores:nba'' = JNum 7"
  by (simp add: CacheClient_get_def cache_seven_def cache_up_def redis_empty_def redis_get_def
      redis_put_def live_def JSON_def json_literal_def json_integer_def is_digit_def
      digits_val_def digit_val_def)

text \<open>
  Claim C6, as the code has it. A key that is present does not always give a hit, and a hit
  does not always have the shape of the miss before it: \<^verbatim>\<open>getOrSet\<close> takes
  \<^verbatim>\<open>get(key) !== null\<close> for the hit, and \<^verbatim>\<open>get\<close> parses what it reads. With the
  key present and holding the text \<^verbatim>\<open>null\<close> the fetch function is invoked and the
  result tagged \<^verbatim>\<open>cached: false\<close>; and a fetch function that returns the string
  \<^verbatim>\<open>'123'\<close> gives that string on the miss and the number 123 on the hit that
  follows.
\<close>

theorem getOrSet_counterexample:
  "redis_get (redis_put redis_empty ''scores:nba'' ''null'' (Some 1030)) ''scores:nba'' = Inr (Some ''null'') \<and>
   getOrSet JSON no_env ''scores:nba'' fetch_seven ''scores'' (cache_null, 0) =
     (Inr \<lparr>data = JNum 7, cached = False\<rparr>, cache_seven, 1) \<and>
   fst (getOrSet JSON no_env ''scores:nba'' fetch_text ''scores'' (cache_up, 0)) =
     Inr \<lparr>data = JStr ''123'', cached = False\<rparr> \<and>
   fst (getOrSet JSON no_env ''scores:nba'' fetch_text ''scores''
          (snd (getOrSet JSON no_env ''scores:nba'' fetch_text ''scores'' (cache_up, 0)))) =
     Inr \<lparr>data = JNum 123, cached = True\<rparr>"
  by (simp add: getOrSet_def CacheClient_get_def CacheClient_set_def cache_null_def cache_seven_def
      cache_up_def redis_empty_def redis_setex_def redis_put_def redis_get_def live_def serialize_def
      JSON_def json_literal_def json_integer_def is_digit_def digits_val_def digit_val_def Let_def
      fetch_seven_def fetch_text_def ttl_for_def CACHE_TTL_def env_or_def no_env_def show_int_def
      digit_char_def)

text \<open>
  Claim C6, amended. A hit is a \<^verbatim>\<open>cacheClient.get(key)\<close> that returns something other
  than \<^verbatim>\<open>null\<close>: then \<^verbatim>\<open>getOrSet\<close> returns that value tagged
  \<^verbatim>\<open>cached: true\<close>, and neither the cache nor the upstream state has changed (the fetch
  function did not run). Otherwise, with a fetch function that returns \<open>d\<close> and leaves the
  upstream state \<open>u'\<close>, it returns \<open>d\<close> tagged \<^verbatim>\<open>cached: false\<close>, the upstream
  state is \<open>u'\<close> (the fetch function ran once), and the cache is what
  \<^verbatim>\<open>set(key, d, ttl)\<close> leaves, \<open>ttl\<close> being the category's entry of
  \<^verbatim>\<open>CACHE_TTL\<close>; on a reachable store that is the serialised \<open>d\<close> under the key,
  expiring \<open>ttl\<close> seconds from now. The next call is then a hit whose data is what
  \<^verbatim>\<open>get\<close> reads back from the serialised \<open>d\<close>, provided that is not \<^verbatim>\<open>null\<close>:
  its \<^verbatim>\<open>JSON.parse\<close>, or the text itself when it does not parse.
\<close>

theorem getOrSet_read_through:
  "(CacheClient_get J c key \<noteq> JNull \<longrightarrow>
      getOrSet J env key fetchFn dataType (c, u) =
        (Inr \<lparr>data = CacheClient_get J c key, cached = True\<rparr>, c, u)) \<and>
   (CacheClient_get J c key = JNull \<and> fetchFn u = (Inr d, u') \<longrightarrow>
      getOrSet J env key fetchFn dataType (c, u) =
        (Inr \<lparr>data = d, cached = False\<rparr>,
         snd (CacheClient_set J c key d (Some (ttl_for env dataType))), u')) \<and>
   (CACHE_TTL env dataType = Some t \<longrightarrow> ttl_for env dataType = t) \<and>
   (isConnected c \<and> client c = Some r \<and> \<not> failing r \<and> 0 < ttl_for env dataType \<longrightarrow>
      CacheClient_set J c key d (Some (ttl_for env dataType)) =
        (True, c\<lparr>client := Some (redis_put r key (serialize J d)
                                   (Some (clock r + ttl_for env dataType)))\<rparr>)) \<and>
   (isConnected c \<and> client c = Some r \<and> \<not> failing r \<and> 0 < ttl_for env dataType \<and>
    CacheClient_get J c key = JNull \<and> fetchFn u = (Inr d, u') \<and>
    (if serialize J d = [] then JNull
     else case parse J (serialize J d) of Some x \<Rightarrow> x | None \<Rightarrow> JStr (serialize J d)) \<noteq> JNull \<longrightarrow>
      getOrSet J env key fetchFn dataType (snd (getOrSet J env key fetchFn dataType (c, u))) =
        (Inr \<lparr>data = (if serialize J d = [] then JNull
                       else case parse J (serialize J d) of
                              Some x \<Rightarrow> x | None \<Rightarrow> JStr (serialize J d)),
               cached = True\<rparr>,
         snd (getOrSet J env key fetchFn dataType (c, u))))"
proof (intro conjI impI)
  assume "CacheClient_get J c key \<noteq> JNull"
  then show "getOrSet J env key fetchFn dataType (c, u) =
        (Inr \<lparr>data = CacheClient_get J c key, cached = True\<rparr>, c, u)"
    by (simp add: getOrSet_def Let_def)
next
  assume "CacheClient_get J c key = JNull \<and> fetchFn u = (Inr d, u')"
  then show "getOrSet J env key fetchFn dataType (c, u) =
        (Inr \<lparr>data = d, cached = False\<rparr>,
         snd (CacheClient_set J c key d (Some (ttl_for env dataType))), u')"
    by (simp add: getOrSet_def Let_def split: prod.splits)
next
  assume "CACHE_TTL env dataType = Some t"
  then show "ttl_for env dataType = t"
    using CACHE_TTL_nonzero[of env dataType t] by (simp add: ttl_for_def)
next
  assume "isConnected c \<and> client c = Some r \<and> \<not> failing r \<and> 0 < ttl_for env dataType"
  then show "CacheClient_set J c key d (Some (ttl_for env dataType)) =
        (True, c\<lparr>client := Some (redis_put r key (serialize J d)
                                   (Some (clock r + ttl_for env dataType)))\<rparr>)"
    by (simp add: CacheClient_set_def redis_setex_def Let_def)
next
  let ?read = "if serialize J d = [] then JNull
     else case parse J (serialize J d) of Some x \<Rightarrow> x | None \<Rightarrow> JStr (serialize J d)"
  let ?c' = "c\<lparr>client := Some (redis_put r key (serialize J d)
                                   (Some (clock r + ttl_for env dataType)))\<rparr>"
  assume a: "isConnected c \<and> client c = Some r \<and> \<not> failing r \<and> 0 < ttl_for env dataType \<and>
    CacheClient_get J c key = JNull \<and> fetchFn u = (Inr d, u') \<and> ?read \<noteq> JNull"
  then have s: "CacheClient_set J c key d (Some (ttl_for env dataType)) = (True, ?c')"
    by (simp add: CacheClient_set_def redis_setex_def Let_def)
  have m: "getOrSet J env key fetchFn dataType (c, u) = (Inr \<lparr>data = d, cached = False\<rparr>, ?c', u')"
    using a by (simp add: getOrSet_def Let_def s)
  have g: "CacheClient_get J ?c' key = ?read"
    using a redis_get_put_now[of r "ttl_for env dataType" key "serialize J d"]
    by (simp add: CacheClient_get_def)
  show "getOrSet J env key fetchFn dataType (snd (getOrSet J env key fetchFn dataType (c, u))) =
        (Inr \<lparr>data = ?read, cached = True\<rparr>, snd (getOrSet J env key fetchFn dataType (c, u)))"
    using a unfolding m by (simp add: getOrSet_def Let_def g)
qed

theorem getOrSet_read_through_witness:
  "CacheClient_get JSON cache_up ''scores:nba'' = JNull \<and> fetch_seven 0 = (Inr (JNum 7), 1) \<and>
   CACHE_TTL no_env ''scores'' = Some 30 \<and>
   getOrSet JSON no_env ''scores:nba'' fetch_seven ''scores'' (cache_up, 0) =
     (Inr \<lparr>data = JNum 7, cached = False\<rparr>, cache_seven, 1) \<and>
   CacheClient_get JSON cache_seven ''scores:nba'' \<noteq> JNull \<and>
   getOrSet JSON no_env ''scores:nba'' fetch_seven ''scores'' (cache_seven, 1) =
     (Inr \<lparr>data = JNum 7, cached = True\<rparr>, cache_seven, 1)"
proof -
  have t: "CACHE_TTL no_env ''scores'' = Some 30"
    by (simp add: CACHE_TTL_def env_or_def no_env_def)
  have f: "fetch_seven 0 = (Inr (JNum 7), 1)"
    by (simp add: fetch_seven_def)
  have u: "isConnected cache_up \<and> client cache_up = Some redis_empty \<and> \<not> failing redis_empty"
    by (simp add: cache_up_def redis_empty_def)
  have sj: "serialize JSON (JNum 7) = ''7''"
    by (simp add: serialize_def JSON_def show_int_def digit_char_def)
  note m = getOrSet_read_through[of JSON cache_up "''scores:nba''" no_env fetch_seven "''scores''"
      0 "JNum 7" 1 30 redis_empty]
  note h = getOrSet_read_through[of JSON cache_seven "''scores:nba''" no_env fetch_seven "''scores''"
      1 "JNum 7" 1 30 redis_empty]
  have tf: "ttl_for no_env ''scores'' = 30"
    using m t by simp
  have "getOrSet JSON no_env ''scores:nba'' fetch_seven ''scores'' (cache_up, 0) =
     (Inr \<lparr>data = JNum 7, cached = False\<rparr>, cache_seven, 1)"
    using m get_cache_up f u tf sj by (simp add: cache_seven_def redis_empty_def)
  moreover have "getOrSet JSON no_env ''scores:nba'' fetch_seven ''scores'' (cache_seven, 1) =
     (Inr \<lparr>data = JNum 7, cached = True\<rparr>, cache_seven, 1)"
    using h get_cache_seven by simp
  ultimately show ?thesis
    using get_cache_up get_cache_seven f t by simp
qed

text \<open>
  Claim C7, as the code has it. \<^verbatim>\<open>set\<close> stores a string value as it is and \<^verbatim>\<open>get\<close>
  runs \<^verbatim>\<open>JSON.parse\<close> over whatever it reads and takes an empty string for a missing
  key, so not every value comes back: on a reachable store, within the TTL, the string
  \<^verbatim>\<open>'123'\<close> comes back as the number 123 and the empty string comes back as
  \<^verbatim>\<open>null\<close>.
\<close>

theorem get_after_set_counterexample:
  "CacheClient_get JSON (snd (CacheClient_set JSON cache_up ''k'' (JStr ''123'') (Some 60))) ''k''
     = JNum 123 \<and>
   CacheClient_get JSON (snd (CacheClient_set JSON cache_up ''k'' (JStr ''123'') (Some 60))) ''k''
     \<noteq> JStr ''123'' \<and>
   CacheClient_get JSON (snd (CacheClient_set JSON cache_up ''k'' (JStr '''') (Some 60))) ''k''
     = JNull \<and>
   CacheClient_get JSON (snd (CacheClient_set JSON cache_up ''k'' (JStr '''') (Some 60))) ''k''
     \<noteq> JStr ''''"
  by (simp add: CacheClient_get_def CacheClient_set_def cache_up_def redis_empty_def
      redis_setex_def redis_put_def redis_get_def live_def serialize_def JSON_def
      json_literal_def json_integer_def is_digit_def digits_val_def digit_val_def Let_def)

text \<open>
  Claim C7, amended: for every key, value and positive TTL, on a reachable store and before
  the TTL has elapsed, \<^verbatim>\<open>get\<close> after \<^verbatim>\<open>set(key, value, ttl)\<close> returns \<^verbatim>\<open>null\<close> when
  the serialised value is the empty string, the \<^verbatim>\<open>JSON.parse\<close> of the serialised value
  when that parses, and the serialised string itself otherwise. It is the value that was
  set when the value is not a string and its JSON text is not empty and parses back to it,
  and when the value is a non-empty string that is not JSON text.
\<close>

theorem get_after_set:
  assumes "isConnected c" and "client c = Some r" and "\<not> failing r"
    and "0 < ttl" and "dt < ttl"
  shows "CacheClient_get J (elapse dt (snd (CacheClient_set J c key v (Some ttl)))) key =
           (if serialize J v = [] then JNull
            else case parse J (serialize J v) of Some x \<Rightarrow> x | None \<Rightarrow> JStr (serialize J v))
         \<and> ((\<forall>s. v \<noteq> JStr s) \<and> stringify J v \<noteq> [] \<and> parse J (stringify J v) = Some v \<longrightarrow>
              CacheClient_get J (elapse dt (snd (CacheClient_set J c key v (Some ttl)))) key = v)
         \<and> ((\<exists>s. v = JStr s \<and> s \<noteq> [] \<and> parse J s = None) \<longrightarrow>
              CacheClient_get J (elapse dt (snd (CacheClient_set J c key v (Some ttl)))) key = v)"
proof -
  have s: "snd (CacheClient_set J c key v (Some ttl)) =
             c\<lparr>client := Some (redis_put r key (serialize J v) (Some (clock r + ttl)))\<rparr>"
    using assms by (simp add: CacheClient_set_def redis_setex_def Let_def)
  have g: "CacheClient_get J (elapse dt (snd (CacheClient_set J c key v (Some ttl)))) key =
           (if serialize J v = [] then JNull
            else case parse J (serialize J v) of Some x \<Rightarrow> x | None \<Rightarrow> JStr (serialize J v))"
    using assms redis_get_put[of r dt ttl key "serialize J v"]
    by (simp add: s elapse_def CacheClient_get_def redis_put_def)
  show ?thesis
    unfolding g by (cases v) (auto simp: serialize_def)
qed

theorem get_after_set_witness:
  "isConnected cache_up \<and> client cache_up = Some redis_empty \<and> \<not> failing redis_empty \<and>
   (0::int) < 30 \<and> (29::int) < 30 \<and>
   CacheClient_get JSON (elapse 29 (snd (CacheClient_set JSON cache_up ''k'' (JNum 42) (Some 30))))
     ''k'' = JNum 42 \<and>
   CacheClient_get JSON
     (elapse 29 (snd (CacheClient_set JSON cache_up ''k'' (JStr ''final'') (Some 30)))) ''k''
     = JStr ''final''"
proof -
  have u: "isConnected cache_up" "client cache_up = Some redis_empty" "\<not> failing redis_empty"
    by (simp_all add: cache_up_def redis_empty_def)
  have p1: "stringify JSON (JNum 42) \<noteq> [] \<and> parse JSON (stringify JSON (JNum 42)) = Some (JNum 42)"
    by (simp add: JSON_def show_int_def digit_char_def json_literal_def json_integer_def
        is_digit_def digits_val_def digit_val_def)
  have p2: "parse JSON ''final'' = None"
    by (simp add: JSON_def json_literal_def json_integer_def is_digit_def)
  show ?thesis
    using get_after_set[OF u, of 30 29 JSON "''k''" "JNum 42"]
      get_after_set[OF u, of 30 29 JSON "''k''" "JStr ''final''"] u p1 p2
    by (simp add: serialize_def)
qed

text \<open>
  Claim C8. When the client is not connected, has no connection object, or the store
  rejects its commands, \<^verbatim>\<open>get\<close> returns \<^verbatim>\<open>null\<close>, \<^verbatim>\<open>set\<close> and \<^verbatim>\<open>del\<close> return
  \<^verbatim>\<open>false\<close>, \<^verbatim>\<open>delPattern\<close> returns 0, and each leaves the client as it was. The
  methods are total functions of the model: none of them has a path that throws.
\<close>

theorem cache_fails_open:
  assumes "\<not> isConnected c \<or> client c = None \<or> (\<exists>r. client c = Some r \<and> failing r)"
  shows "CacheClient_get J c key = JNull \<and>
         CacheClient_set J c key v ttl = (False, c) \<and>
         CacheClient_del c key = (False, c) \<and>
         CacheClient_delPattern c pat = (0, c)"
  using assms
  by (auto simp: CacheClient_get_def CacheClient_set_def CacheClient_del_def
        CacheClient_delPattern_def redis_get_def redis_set_def redis_setex_def redis_del_def
        redis_keys_def Let_def
      split: option.splits)

theorem cache_fails_open_witness:
  "(\<exists>r. client cache_failing = Some r \<and> failing r) \<and>
   CacheClient_get JSON cache_failing ''scores:nba'' = JNull \<and>
   CacheClient_set JSON cache_failing ''scores:nba'' (JNum 8) (Some 30) = (False, cache_failing) \<and>
   CacheClient_del cache_failing ''scores:nba'' = (False, cache_failing) \<and>
   CacheClient_delPattern cache_failing ''scores:*'' = (0, cache_failing) \<and>
   \<not> isConnected cache_never_connected \<and>
   CacheClient_get JSON cache_never_connected ''scores:nba'' = JNull \<and>
   CacheClient_set JSON cache_never_connected ''scores:nba'' (JNum 8) (Some 30) =
     (False, cache_never_connected)"
  using cache_fails_open[of cache_failing JSON "''scores:nba''" "JNum 8" "Some 30" "''scores:*''"]
    cache_fails_open[of cache_never_connected JSON "''scores:nba''" "JNum 8" "Some 30" "''scores:*''"]
  by (simp add: cache_failing_def cache_never_connected_def)

section \<open>Properties of the normaliser\<close>

lemma number_or_null_iff: "number_or n JNull = JNull \<longleftrightarrow> n = None \<or> n = Some 0"
  by (auto simp: number_or_def split: option.splits)

lemma takeWhile_Nil_cases:
  "takeWhile P xs = [] \<longleftrightarrow> (case xs of [] \<Rightarrow> True | c # rest \<Rightarrow> \<not> P c)"
  by (cases xs) simp_all

lemma parseInt_None_iff: "parseInt x = None \<longleftrightarrow> no_leading_integer (unsigned_text x)"
  by (cases "skip_blanks (js_String x)")
     (simp_all add: parseInt_def unsigned_text_def no_leading_integer_def Let_def takeWhile_Nil_cases)

lemma with_score_props: "p \<noteq> ''score'' \<Longrightarrow> opt_prop (with_score s c) p = opt_prop c p"
  by (cases c) (simp_all add: with_score_def)

lemma with_score_get_prop: "p \<noteq> ''score'' \<Longrightarrow> get_prop (with_score s c) p = get_prop c p"
  by (cases c) (simp_all add: with_score_def)

lemma with_score_score:
  "opt_prop (with_score s c) ''score'' = (case c of JObj kvs \<Rightarrow> s | _ \<Rightarrow> JUndefined)"
  by (cases c) (simp_all add: with_score_def)

lemma competitor_event_of:
  "competitor side (event_of eprops cprops others cs) = find_side side cs"
  by (simp add: competitor_def event_of_def)

lemma find_side_with_score:
  "find_side side (cs1 @ with_score s c # cs2) = find_side side (cs1 @ with_score s' c # cs2) \<or>
   (find_side side (cs1 @ with_score s c # cs2) = Inr (with_score s c) \<and>
    find_side side (cs1 @ with_score s' c # cs2) = Inr (with_score s' c))"
  by (induction cs1) (auto simp: with_score_get_prop split: sum.splits)

lemma competitor_reads_same:
  assumes "number_or (parseInt s) JNull = number_or (parseInt s') JNull"
  shows "competitor_reads (find_side side (cs1 @ with_score s c # cs2)) =
         competitor_reads (find_side side (cs1 @ with_score s' c # cs2))"
  using find_side_with_score[of side cs1 s c cs2 s'] assms
  by (cases c) (auto simp: competitor_reads_def with_score_props with_score_score)

lemma normalizeGameData_same:
  assumes "number_or (parseInt s) JNull = number_or (parseInt s') JNull"
  shows "normalizeGameData (event_of eprops cprops others (cs1 @ with_score s c # cs2)) league =
         normalizeGameData (event_of eprops cprops others (cs1 @ with_score s' c # cs2)) league"
proof -
  have e: "\<And>cs p. p \<noteq> ''competitions'' \<Longrightarrow>
      opt_prop (event_of eprops cprops others cs) p = opt_prop (JObj eprops) p"
    by (simp add: event_of_def)
  have f: "\<And>cs p. p \<noteq> ''competitors'' \<Longrightarrow>
      opt_prop (opt_index0 (opt_prop (event_of eprops cprops others cs) ''competitions'')) p =
      opt_prop (JObj cprops) p"
    by (simp add: event_of_def)
  show ?thesis
    using competitor_reads_same[OF assms, of "''home''" cs1 c cs2]
      competitor_reads_same[OF assms, of "''away''" cs1 c cs2]
    by (auto simp: normalizeGameData_def competitor_event_of e f competitor_reads_def split: sum.splits)
qed

lemma map_events_same:
  "f e = f e' \<Longrightarrow> map_events f (es1 @ e # es2) = map_events f (es1 @ e' # es2)"
  by (induction es1) (simp_all split: sum.splits)

lemma normalizeScoreboard_same:
  assumes "normalizeGameData e league = normalizeGameData e' league"
  shows "normalizeScoreboard (payload_of pprops (es1 @ e # es2)) league stamp =
         normalizeScoreboard (payload_of pprops (es1 @ e' # es2)) league stamp"
  using map_events_same[of "\<lambda>event. normalizeGameData event league" e e' es1 es2] assms
  by (simp add: normalizeScoreboard_def payload_of_def js_or_def)

lemma score_fields:
  assumes "competitor ''home'' event = Inr home" and "competitor ''away'' event = Inr away"
  shows "\<exists>game. normalizeGameData event league = Inr game \<and>
           opt_prop (opt_prop game ''homeTeam'') ''score'' =
             number_or (parseInt (opt_prop home ''score'')) JNull \<and>
           opt_prop (opt_prop game ''awayTeam'') ''score'' =
             number_or (parseInt (opt_prop away ''score'')) JNull"
  using assms by (simp add: normalizeGameData_def)

text \<open>The normaliser throws where the code's plain reads and calls do.\<close>

lemma normalizeGameData_throws:
  "normalizeGameData JNull league = Inl TypeError"
  "normalizeGameData JUndefined league = Inl TypeError"
  "normalizeGameData (event_of eprops cprops others (JNull # cs)) league = Inl TypeError"
  "normalizeGameData (JObj [(''competitions'', JArr [JObj [(''competitors'', JStr ''none'')]])]) league
     = Inl TypeError"
  "normalizeScoreboard (payload_of pprops [mock_event (JStr ''1'') (JStr ''2''), JNull]) league stamp
     = Inl TypeError"
  "normalizeScoreboard (JObj [(''events'', JStr ''none'')]) league stamp = Inl TypeError"
  by (simp_all add: normalizeGameData_def competitor_def event_of_def normalizeScoreboard_def
      payload_of_def js_or_def mock_event_def with_score_def mock_competitor_def)

text \<open>White space beyond ASCII is skipped, and a sign or a prefix alone is no number.\<close>

lemma parseInt_examples:
  "parseInt (JStr (CHR 0xC2 # CHR 0xA0 # ''7'')) = Some 7"
  "parseInt (JStr (CHR 0xA0 # ''7'')) = Some 7"
  "parseInt (JStr (CHR 0xEF # CHR 0xBB # CHR 0xBF # CHR 0xE2 # CHR 0x80 # CHR 0xA8 # '' 21'')) = Some 21"
  "parseInt (JStr (CHR 0xE3 # CHR 0x80 # CHR 0x80 # CHR 0xE1 # CHR 0x9A # CHR 0x80 # ''-3'')) = Some (- 3)"
  "parseInt (JStr (CHR 0xE2 # CHR 0x80 # CHR 0x8A # CHR 0xE2 # CHR 0x81 # CHR 0x9F # ''4'')) = Some 4"
  "parseInt (JStr '''') = None" "parseInt (JStr ''-'') = None" "parseInt (JStr ''0x'') = None"
  "parseInt (JStr ''0x1A'') = Some 26" "parseInt (JStr ''12abc'') = Some 12"
  by (simp_all add: parseInt_def is_space_def is_space3_def is_digit_def is_hex_def digits_val_def
      digit_val_def hex_val_def Let_def)

lemma league_label_examples:
  "league_label ''nba'' = ''NBA'' \<and> league_label ''wnba'' = ''WNBA'' \<and>
   league_label ''constructor'' = ''Object'' \<and> league_label ''toString'' = ''toString''"
  by code_simp

text \<open>
  Claim C10, as the code has it. Not every non-numeric score normalises to \<^verbatim>\<open>null\<close>:
  \<^verbatim>\<open>parseInt\<close> reads the integer a text starts with, so the fixture event with the
  home score \<^verbatim>\<open>'12abc'\<close> normalises to a home score of 12.
\<close>

theorem score_counterexample:
  "opt_prop (opt_prop (mock_game_with (JStr ''12abc'') (JStr ''10'')) ''homeTeam'') ''score'' = JNum 12 \<and>
   opt_prop (opt_prop (mock_game_with (JStr ''12abc'') (JStr ''10'')) ''homeTeam'') ''score'' \<noteq> JNull"
  by code_simp

text \<open>
  Claim C10, amended. When both searches for a side return, the normalised
  \<^verbatim>\<open>homeTeam.score\<close> and \<^verbatim>\<open>awayTeam.score\<close> are \<^verbatim>\<open>parseInt(score) || null\<close>
  of the competitor found. That is \<^verbatim>\<open>null\<close> exactly when \<^verbatim>\<open>parseInt\<close> gives
  \<^verbatim>\<open>NaN\<close> or 0; it gives 0 for the score \<^verbatim>\<open>'0'\<close> or 0, and \<^verbatim>\<open>NaN\<close> exactly
  when the score's text, after leading white space and one sign, does not start with a
  decimal digit (after a prefix \<^verbatim>\<open>0x\<close>: with a hexadecimal digit), as for a missing
  score. Two events that differ only in the score of one competitor, the two scores
  normalising to the same value, have the same normalised game, and two scoreboard
  payloads that differ only in such an event have the same normalised scoreboard (or throw
  the same error): so a payload with a score of 0 and the same payload without that score
  cannot be told apart.
\<close>

theorem score_normalizes_to_null:
  "(competitor ''home'' event = Inr home \<and> competitor ''away'' event = Inr away \<longrightarrow>
      (\<exists>game. normalizeGameData event league = Inr game \<and>
         opt_prop (opt_prop game ''homeTeam'') ''score'' =
           number_or (parseInt (opt_prop home ''score'')) JNull \<and>
         opt_prop (opt_prop game ''awayTeam'') ''score'' =
           number_or (parseInt (opt_prop away ''score'')) JNull)) \<and>
   (number_or (parseInt x) JNull = JNull \<longleftrightarrow> parseInt x = None \<or> parseInt x = Some 0) \<and>
   (parseInt x = None \<longleftrightarrow> no_leading_integer (unsigned_text x)) \<and>
   parseInt (JStr ''0'') = Some 0 \<and> parseInt (JNum 0) = Some 0 \<and> parseInt JUndefined = None \<and>
   (number_or (parseInt s) JNull = number_or (parseInt s') JNull \<longrightarrow>
      normalizeGameData (event_of eprops cprops others (cs1 @ with_score s c # cs2)) league =
      normalizeGameData (event_of eprops cprops others (cs1 @ with_score s' c # cs2)) league \<and>
      normalizeScoreboard
        (payload_of pprops (es1 @ event_of eprops cprops others (cs1 @ with_score s c # cs2) # es2))
        league stamp =
      normalizeScoreboard
        (payload_of pprops (es1 @ event_of eprops cprops others (cs1 @ with_score s' c # cs2) # es2))
        league stamp) \<and>
   normalizeScoreboard
     (payload_of pprops
        (es1 @ event_of eprops cprops others (cs1 @ with_score (JStr ''0'') c # cs2) # es2))
     league stamp =
   normalizeScoreboard
     (payload_of pprops
        (es1 @ event_of eprops cprops others (cs1 @ with_score JUndefined c # cs2) # es2))
     league stamp"
proof -
  have z: "parseInt (JStr ''0'') = Some 0" "parseInt (JNum 0) = Some 0" "parseInt JUndefined = None"
    by (simp_all add: parseInt_def is_space_def is_space3_def is_digit_def digits_val_def
        digit_val_def show_int_def digit_char_def Let_def)
  have f: "\<exists>game. normalizeGameData event league = Inr game \<and>
         opt_prop (opt_prop game ''homeTeam'') ''score'' =
           number_or (parseInt (opt_prop home ''score'')) JNull \<and>
         opt_prop (opt_prop game ''awayTeam'') ''score'' =
           number_or (parseInt (opt_prop away ''score'')) JNull"
    if "competitor ''home'' event = Inr home \<and> competitor ''away'' event = Inr away"
    using that by (simp add: normalizeGameData_def)
  have g: "normalizeGameData (event_of eprops cprops others (cs1 @ with_score s c # cs2)) league =
      normalizeGameData (event_of eprops cprops others (cs1 @ with_score s' c # cs2)) league"
    if "number_or (parseInt s) JNull = number_or (parseInt s') JNull"
    using that by (rule normalizeGameData_same)
  have b: "normalizeScoreboard
        (payload_of pprops (es1 @ event_of eprops cprops others (cs1 @ with_score s c # cs2) # es2))
        league stamp =
      normalizeScoreboard
        (payload_of pprops (es1 @ event_of eprops cprops others (cs1 @ with_score s' c # cs2) # es2))
        league stamp"
    if "number_or (parseInt s) JNull = number_or (parseInt s') JNull"
    using that by (intro normalizeScoreboard_same normalizeGameData_same)
  have b0: "normalizeScoreboard
     (payload_of pprops
        (es1 @ event_of eprops cprops others (cs1 @ with_score (JStr ''0'') c # cs2) # es2))
     league stamp =
   normalizeScoreboard
     (payload_of pprops
        (es1 @ event_of eprops cprops others (cs1 @ with_score JUndefined c # cs2) # es2))
     league stamp"
    by (intro normalizeScoreboard_same normalizeGameData_same) (simp add: z number_or_def)
  from z f g b b0 number_or_null_iff[of "parseInt x"] parseInt_None_iff[of x]
  show ?thesis by blast
qed

theorem score_normalizes_to_null_witness:
  "competitor ''home'' (mock_event (JStr ''14'') (JStr ''0'')) =
     Inr (with_score (JStr ''14'') (mock_competitor ''home'' ''34'' ''Kansas City Chiefs'' ''KC'')) \<and>
   competitor ''away'' (mock_event (JStr ''14'') (JStr ''0'')) =
     Inr (with_score (JStr ''0'') (mock_competitor ''away'' ''25'' ''Houston Texans'' ''HOU'')) \<and>
   (\<exists>game. normalizeGameData (mock_event (JStr ''14'') (JStr ''0'')) ''nfl'' = Inr game \<and>
      opt_prop (opt_prop game ''homeTeam'') ''score'' = JNum 14 \<and>
      opt_prop (opt_prop game ''awayTeam'') ''score'' = JNull) \<and>
   number_or (parseInt (JStr ''0'')) JNull = number_or (parseInt JUndefined) JNull \<and>
   normalizeScoreboard (payload_of [] [mock_event (JStr ''14'') (JStr ''0'')]) ''nfl'' ''2024-01-17T18:05Z'' =
   normalizeScoreboard (payload_of [] [mock_event (JStr ''14'') JUndefined]) ''nfl'' ''2024-01-17T18:05Z'' \<and>
   no_leading_integer (unsigned_text (JStr '' TBD'')) \<and>
   number_or (parseInt (JStr '' TBD'')) JNull = JNull"
proof -
  let ?EP = "[(''id'', JStr ''401673744''),
          (''date'', JStr ''2024-01-17T18:00Z''),
          (''status'', JObj [(''type'', JObj [(''id'', JStr ''3''), (''state'', JStr ''in'')]),
                            (''period'', JNum 2)])]"
  let ?CP = "[(''id'', JStr ''401673744''),
          (''venue'', JObj [(''fullName'', JStr ''Arrowhead Stadium'')]),
          (''broadcasts'', JArr [JObj [(''names'', JArr [JStr ''CBS''])]])]"
  let ?H = "with_score (JStr ''14'') (mock_competitor ''home'' ''34'' ''Kansas City Chiefs'' ''KC'')"
  let ?A = "mock_competitor ''away'' ''25'' ''Houston Texans'' ''HOU''"
  let ?E = "mock_event (JStr ''14'') (JStr ''0'')"
  have me: "\<And>a. [mock_event (JStr ''14'') a] = [] @ event_of ?EP ?CP [] ([?H] @ with_score a ?A # []) # []"
    by (simp add: mock_event_def)
  have c: "competitor ''home'' ?E = Inr ?H" "competitor ''away'' ?E = Inr (with_score (JStr ''0'') ?A)"
    by (simp_all add: mock_event_def competitor_event_of with_score_def mock_competitor_def)
  have sc: "opt_prop ?H ''score'' = JStr ''14''" "opt_prop (with_score (JStr ''0'') ?A) ''score'' = JStr ''0''"
    by (simp_all add: with_score_def mock_competitor_def)
  have p: "number_or (parseInt (JStr ''14'')) JNull = JNum 14"
    "number_or (parseInt (JStr ''0'')) JNull = JNull"
    "number_or (parseInt JUndefined) JNull = JNull"
    by (simp_all add: number_or_def parseInt_def is_space_def is_space3_def is_digit_def digits_val_def
        digit_val_def Let_def)
  have n: "no_leading_integer (unsigned_text (JStr '' TBD''))"
    by (simp add: no_leading_integer_def unsigned_text_def is_space_def is_digit_def)
  note t = score_normalizes_to_null[where event = ?E and home = ?H
        and away = "with_score (JStr ''0'') ?A" and league = "''nfl''" and x = "JStr '' TBD''"
        and s = "JStr ''0''" and s' = JUndefined and eprops = ?EP and cprops = ?CP
        and others = "[]" and ?cs1.0 = "[?H]" and c = ?A and ?cs2.0 = "[]" and pprops = "[]"
        and ?es1.0 = "[]" and ?es2.0 = "[]" and stamp = "''2024-01-17T18:05Z''"]
  from t c have 1: "\<exists>game. normalizeGameData ?E ''nfl'' = Inr game \<and>
      opt_prop (opt_prop game ''homeTeam'') ''score'' = JNum 14 \<and>
      opt_prop (opt_prop game ''awayTeam'') ''score'' = JNull"
    unfolding sc p by blast
  from t have 2: "normalizeScoreboard (payload_of [] [mock_event (JStr ''14'') (JStr ''0'')]) ''nfl''
       ''2024-01-17T18:05Z'' =
     normalizeScoreboard (payload_of [] [mock_event (JStr ''14'') JUndefined]) ''nfl'' ''2024-01-17T18:05Z''"
    unfolding me by blast
  from t n have 3: "number_or (parseInt (JStr '' TBD'')) JNull = JNull"
    by blast
  from c 1 2 3 n p show ?thesis by simp
qed

section \<open>Properties of the scoreboard sync\<close>

text \<open>\<^verbatim>\<open>BaseRepository.upsert\<close> returns an array on every path.\<close>

lemma BaseRepository_upsert_array:
  "\<exists>rows d'. BaseRepository_upsert d tableName records onConflict = (JArr rows, d')"
  by (auto simp: BaseRepository_upsert_def Let_def split: prod.splits sum.splits)

text \<open>
  So a team that is neither cached nor stored comes back from \<^verbatim>\<open>getOrCreate\<close> as an
  array, created or not: a truthy value without an \<^verbatim>\<open>id\<close>. A team found in the store
  comes back as its row.
\<close>

lemma getOrCreate_creation_returns_array:
  assumes "get_prop espnTeamData ''espnId'' = Inr espnId"
    and "\<not> truthy (CacheClient_get J c (generateCacheKey ''team'' [espnId]))"
    and "\<not> truthy (TeamsRepository_findByEspnId d espnId)"
    and "getLeagueName league = Inr leagueName"
  shows "\<exists>rows s'. getOrCreate J (c, d) espnTeamData league = (Inr (JArr rows), s') \<and>
           truthy (JArr rows) \<and> opt_prop (JArr rows) ''id'' = JUndefined"
proof -
  let ?team = "JObj
                 [(''espn_id'', JStr (js_String (js_or (opt_prop espnTeamData ''espnId'')
                                                       (opt_prop espnTeamData ''id'')))),
                  (''sport'', league),
                  (''league'', leagueName),
                  (''name'', opt_prop espnTeamData ''name''),
                  (''abbreviation'', js_or (opt_prop espnTeamData ''abbreviation'') JNull),
                  (''location'', js_or (opt_prop espnTeamData ''location'') JNull),
                  (''logo_url'', js_or (opt_prop espnTeamData ''logo'') JNull),
                  (''color'', js_or (opt_prop espnTeamData ''color'') JNull),
                  (''alternate_color'', js_or (opt_prop espnTeamData ''alternateColor'') JNull)]"
  obtain rows d' where b: "BaseRepository_upsert d ''teams'' ?team ''espn_id'' = (JArr rows, d')"
    using BaseRepository_upsert_array by blast
  have u: "TeamsRepository_upsertFromESPN d espnTeamData league = (Inr (JArr rows), d')"
    using assms(4) b by (simp add: TeamsRepository_upsertFromESPN_def)
  show ?thesis
    using assms(1,2,3) u by (simp add: getOrCreate_def Let_def)
qed

lemma getOrCreate_found_returns_row:
  assumes "get_prop espnTeamData ''espnId'' = Inr espnId"
    and "\<not> truthy (CacheClient_get J c (generateCacheKey ''team'' [espnId]))"
    and "TeamsRepository_findByEspnId d espnId = row" and "truthy row"
  shows "getOrCreate J (c, d) espnTeamData league =
           (Inr row, snd (CacheClient_set J c (generateCacheKey ''team'' [espnId]) row (Some 604800)), d)"
  using assms by (simp add: getOrCreate_def Let_def)

text \<open>
  Claim C5, evaluated on the code. The two \<^verbatim>\<open>getOrCreate\<close> calls do come before the
  game upsert, but \<^verbatim>\<open>getOrCreate\<close> hands back what \<^verbatim>\<open>BaseRepository.upsert\<close>
  returned, an array: it is truthy even when empty, so the guard
  \<^verbatim>\<open>if (!homeTeam || !awayTeam)\<close> lets it pass, and it has no \<^verbatim>\<open>id\<close>. Syncing the
  fixture scoreboard into an empty store creates the two teams with the ids 1 and 2 and
  then issues one game upsert whose \<^verbatim>\<open>home_team_id\<close> and \<^verbatim>\<open>away_team_id\<close> are
  \<^verbatim>\<open>undefined\<close>; the game row written carries no team id. With a store that fails every
  request, no team can be resolved, the game upsert is issued all the same, and the sync
  reports one successful game.
\<close>

theorem game_upsert_without_team_ids:
  "map (\<lambda>g. (opt_prop g ''home_team_id'', opt_prop g ''away_team_id''))
     (requests_on ''games''
        (snd (snd (syncFromScoreboard JSON (cache_up, db_empty) mock_scoreboard))))
     = [(JUndefined, JUndefined)] \<and>
   map (\<lambda>r. opt_prop r ''id'')
     (teams_table (snd (snd (syncFromScoreboard JSON (cache_up, db_empty) mock_scoreboard))))
     = [JNum 1, JNum 2] \<and>
   map (\<lambda>g. (opt_prop g ''espn_id'', opt_prop g ''home_team_id'', opt_prop g ''away_team_id''))
     (games_table (snd (snd (syncFromScoreboard JSON (cache_up, db_empty) mock_scoreboard))))
     = [(JStr ''401673744'', JUndefined, JUndefined)] \<and>
   map (\<lambda>g. (opt_prop g ''home_team_id'', opt_prop g ''away_team_id''))
     (requests_on ''games''
        (snd (snd (syncFromScoreboard JSON (cache_up, db_down) mock_scoreboard))))
     = [(JUndefined, JUndefined)] \<and>
   teams_table (snd (snd (syncFromScoreboard JSON (cache_up, db_down) mock_scoreboard))) = [] \<and>
   fst (syncFromScoreboard JSON (cache_up, db_down) mock_scoreboard) =
     JObj [(''successful'', JNum 1), (''failed'', JNum 0), (''total'', JNum 1)]"
  by code_simp

end
